theory Spec2Isabelle
  imports Complex_Main
begin

section \<open>Python values and errors\<close>

text \<open>
  Python floats are modelled as reals; \<open>NaN\<close> appears only where the source produces it
  as the "missing sensor" marker. The exceptions the modelled code can raise are values.
\<close>

datatype py_error = KeyError | TypeError | IndexError | ValueError

datatype pyfloat = NaN | Fl real

text \<open>
  A sensor reading is a scalar (DS18B20 temperature, MQ-2 ADC value, ...) or a NumPy
  array (thermal frame, audio buffer), kept here as the flat list of its elements.
\<close>

datatype sensor_value = Scalar real | NdArray "real list"

text \<open>
  \<open>float(v)\<close>: a number converts; an array converts only when it holds exactly one
  element, and raises \<open>TypeError\<close> otherwise.
\<close>

fun py_float :: "sensor_value \<Rightarrow> py_error + real" where
  "py_float (Scalar r) = Inr r"
| "py_float (NdArray [x]) = Inr x"
| "py_float (NdArray xs) = Inl TypeError"

section \<open>equipment\_registry.py\<close>

record equipment_type =
  type_name :: string
  sensors_required :: "string list"
  sensors_optional :: "string list"
  models :: "string list"
  description :: string

definition EQUIPMENT_TYPES :: "(string \<times> equipment_type) list" where
  "EQUIPMENT_TYPES = [
    (''fridge'', \<lparr>type_name = ''Refrigerator'',
       sensors_required = [''thermal'', ''acoustic''],
       sensors_optional = [''gas'', ''temperature''],
       models = [''thermal_cnn'', ''acoustic_cnn'', ''lstm_ae''],
       description = ''Standard lab refrigerator for sample storage''\<rparr>),
    (''freezer_ultra_low'', \<lparr>type_name = ''Ultra-Low Freezer (-80 C)'',
       sensors_required = [''thermal'', ''acoustic'', ''temperature''],
       sensors_optional = [''gas''],
       models = [''thermal_cnn'', ''acoustic_cnn'', ''lstm_ae''],
       description = ''Ultra-low temperature freezer for long-term sample storage''\<rparr>),
    (''incubator'', \<lparr>type_name = ''Incubator'',
       sensors_required = [''thermal'', ''temperature''],
       sensors_optional = [''co2'', ''humidity''],
       models = [''thermal_cnn'', ''lstm_ae''],
       description = ''Temperature-controlled incubator for cell cultures''\<rparr>),
    (''centrifuge'', \<lparr>type_name = ''Centrifuge'',
       sensors_required = [''acoustic''],
       sensors_optional = [''vibration'', ''current''],
       models = [''acoustic_cnn'', ''lstm_ae''],
       description = ''High-speed centrifuge for sample separation''\<rparr>),
    (''autoclave'', \<lparr>type_name = ''Autoclave'',
       sensors_required = [''thermal'', ''acoustic''],
       sensors_optional = [''pressure''],
       models = [''thermal_cnn'', ''acoustic_cnn'', ''lstm_ae''],
       description = ''Steam sterilization equipment''\<rparr>),
    (''oven'', \<lparr>type_name = ''Laboratory Oven'',
       sensors_required = [''thermal''],
       sensors_optional = [''temperature''],
       models = [''thermal_cnn'', ''lstm_ae''],
       description = ''Drying and heating oven''\<rparr>),
    (''water_bath'', \<lparr>type_name = ''Water Bath'',
       sensors_required = [''thermal'', ''temperature''],
       sensors_optional = [],
       models = [''thermal_cnn'', ''lstm_ae''],
       description = ''Temperature-controlled water bath''\<rparr>),
    (''vacuum_pump'', \<lparr>type_name = ''Vacuum Pump'',
       sensors_required = [''acoustic''],
       sensors_optional = [''vibration'', ''pressure''],
       models = [''acoustic_cnn'', ''lstm_ae''],
       description = ''Vacuum pump for filtration and evaporation''\<rparr>),
    (''fume_hood'', \<lparr>type_name = ''Fume Hood'',
       sensors_required = [''acoustic''],
       sensors_optional = [''airflow'', ''gas''],
       models = [''acoustic_cnn''],
       description = ''Ventilated enclosure for hazardous materials''\<rparr>),
    (''shaker'', \<lparr>type_name = ''Orbital Shaker'',
       sensors_required = [''acoustic''],
       sensors_optional = [''vibration''],
       models = [''acoustic_cnn''],
       description = ''Shaking incubator or orbital shaker''\<rparr>)]"

text \<open>
  A threshold profile is a dict whose keys are drawn from a fixed set and whose values
  have one shape per key (a number, or a \<open>(min, max)\<close> pair). The record has one
  optional field per key; \<open>None\<close> is "key absent", which is what \<open>dict.get(key)\<close>
  returns. \<open>oxygen_min\<close> is read by the raw threshold check although no table entry
  sets it.
\<close>

record thresholds =
  thermal_anomaly_confidence :: "real option"
  acoustic_anomaly_confidence :: "real option"
  lstm_reconstruction_threshold :: "real option"
  fusion_correlation_confidence :: "real option"
  gas_analog_threshold :: "real option"
  temperature_range :: "(real \<times> real) option"
  co2_range :: "(real \<times> real) option"
  humidity_range :: "(real \<times> real) option"
  vibration_threshold :: "real option"
  current_threshold :: "real option"
  pressure_range :: "(real \<times> real) option"
  temperature_max :: "real option"
  pressure_min :: "real option"
  airflow_min :: "real option"
  oxygen_min :: "real option"

definition no_thresholds :: thresholds where
  "no_thresholds = \<lparr>thermal_anomaly_confidence = None, acoustic_anomaly_confidence = None,
     lstm_reconstruction_threshold = None, fusion_correlation_confidence = None,
     gas_analog_threshold = None, temperature_range = None, co2_range = None,
     humidity_range = None, vibration_threshold = None, current_threshold = None,
     pressure_range = None, temperature_max = None, pressure_min = None,
     airflow_min = None, oxygen_min = None\<rparr>"

definition fridge_thresholds :: thresholds where
  "fridge_thresholds = no_thresholds\<lparr>
     thermal_anomaly_confidence := Some 0.85, acoustic_anomaly_confidence := Some 0.85,
     lstm_reconstruction_threshold := Some 0.045, fusion_correlation_confidence := Some 0.60,
     gas_analog_threshold := Some 300, temperature_range := Some (2.0, 8.0)\<rparr>"

definition EQUIPMENT_THRESHOLDS :: "(string \<times> thresholds) list" where
  "EQUIPMENT_THRESHOLDS = [
    (''fridge'', fridge_thresholds),
    (''freezer_ultra_low'', no_thresholds\<lparr>
       thermal_anomaly_confidence := Some 0.85, acoustic_anomaly_confidence := Some 0.80,
       lstm_reconstruction_threshold := Some 0.040, fusion_correlation_confidence := Some 0.55,
       gas_analog_threshold := Some 300, temperature_range := Some (-82.0, -78.0)\<rparr>),
    (''incubator'', no_thresholds\<lparr>
       thermal_anomaly_confidence := Some 0.90, acoustic_anomaly_confidence := Some 0.85,
       lstm_reconstruction_threshold := Some 0.040, fusion_correlation_confidence := Some 0.60,
       temperature_range := Some (36.5, 37.5), co2_range := Some (4.5, 5.5),
       humidity_range := Some (85, 95)\<rparr>),
    (''centrifuge'', no_thresholds\<lparr>
       thermal_anomaly_confidence := Some 0.85, acoustic_anomaly_confidence := Some 0.75,
       lstm_reconstruction_threshold := Some 0.050,
       vibration_threshold := Some 0.5, current_threshold := Some 5.0\<rparr>),
    (''autoclave'', no_thresholds\<lparr>
       thermal_anomaly_confidence := Some 0.95, acoustic_anomaly_confidence := Some 0.80,
       lstm_reconstruction_threshold := Some 0.055, fusion_correlation_confidence := Some 0.65,
       pressure_range := Some (15, 20)\<rparr>),
    (''oven'', no_thresholds\<lparr>
       thermal_anomaly_confidence := Some 0.92, acoustic_anomaly_confidence := Some 0.85,
       lstm_reconstruction_threshold := Some 0.045, temperature_max := Some 250.0\<rparr>),
    (''water_bath'', no_thresholds\<lparr>
       thermal_anomaly_confidence := Some 0.88, acoustic_anomaly_confidence := Some 0.85,
       lstm_reconstruction_threshold := Some 0.040, temperature_range := Some (35.0, 40.0)\<rparr>),
    (''vacuum_pump'', no_thresholds\<lparr>
       thermal_anomaly_confidence := Some 0.85, acoustic_anomaly_confidence := Some 0.78,
       lstm_reconstruction_threshold := Some 0.048, pressure_min := Some 0.1\<rparr>),
    (''fume_hood'', no_thresholds\<lparr>
       acoustic_anomaly_confidence := Some 0.82, lstm_reconstruction_threshold := Some 0.045,
       airflow_min := Some 100, gas_analog_threshold := Some 200\<rparr>),
    (''shaker'', no_thresholds\<lparr>
       acoustic_anomaly_confidence := Some 0.80, lstm_reconstruction_threshold := Some 0.050,
       vibration_threshold := Some 0.3\<rparr>)]"

text \<open>
  \<open>EQUIPMENT_THRESHOLDS.get(equipment_type, EQUIPMENT_THRESHOLDS["fridge"])\<close>: Python
  evaluates the default argument first, so the subscript \<open>["fridge"]\<close> is a lookup that
  raises \<open>KeyError\<close> when the table has no such entry, whatever type is asked for.
\<close>

definition get_equipment_thresholds :: "string \<Rightarrow> py_error + thresholds" where
  "get_equipment_thresholds equipment_type =
     (case map_of EQUIPMENT_THRESHOLDS ''fridge'' of
        None \<Rightarrow> Inl KeyError
      | Some dflt \<Rightarrow>
          (case map_of EQUIPMENT_THRESHOLDS equipment_type of
             None \<Rightarrow> Inr dflt
           | Some p \<Rightarrow> Inr p))"

text \<open>
  One entry of an equipment's \<open>"sensors"\<close> wiring dict. Only the \<open>"enabled"\<close> key is
  read by the code modelled here; \<open>None\<close> is "key absent". Driver parameters (pins,
  addresses) can be added as record extensions.
\<close>

record sensor_config =
  enabled :: "bool option"

text \<open>
  An equipment instance. \<open>"id"\<close> and \<open>"type"\<close> are subscripted by the code and are
  mandatory; the keys read through \<open>.get\<close> or missing in the tests' instances are
  optional.
\<close>

record equipment =
  eq_id :: string
  eq_type :: string
  eq_name :: "string option"
  location :: "string option"
  sensors :: "(string \<times> sensor_config) list option"
  alert_channels :: "string list option"

definition sensor_name_mapping :: "(string \<times> string) list" where
  "sensor_name_mapping = [
     (''thermal'', ''thermal_camera''),
     (''acoustic'', ''microphone''),
     (''temperature'', ''temperature''),
     (''gas'', ''gas_sensor''),
     (''vibration'', ''vibration''),
     (''current'', ''current''),
     (''co2'', ''co2''),
     (''humidity'', ''humidity''),
     (''pressure'', ''pressure''),
     (''airflow'', ''airflow'')]"

text \<open>\<open>sensor_name_mapping.get(required_sensor, required_sensor)\<close>\<close>

definition config_key_of :: "string \<Rightarrow> string" where
  "config_key_of required_sensor =
     (case map_of sensor_name_mapping required_sensor of
        None \<Rightarrow> required_sensor
      | Some k \<Rightarrow> k)"

text \<open>\<open>sensors_config[config_key].get("enabled", False)\<close>, taken as a truth value.\<close>

definition enabled_flag :: "sensor_config \<Rightarrow> bool" where
  "enabled_flag c = (case enabled c of None \<Rightarrow> False | Some b \<Rightarrow> b)"

text \<open>The loop over \<open>type_def["sensors_required"]\<close>, returning at the first failure.\<close>

fun check_required :: "(string \<times> sensor_config) list \<Rightarrow> string list \<Rightarrow> bool \<times> string" where
  "check_required sensors_config [] = (True, ''Configuration valid'')"
| "check_required sensors_config (required_sensor # rest) =
     (let config_key = config_key_of required_sensor in
      (case map_of sensors_config config_key of
         None \<Rightarrow>
           (False, ''Required sensor missing: '' @ required_sensor @
                   '' (config key: '' @ config_key @ '')'')
       | Some c \<Rightarrow>
           if \<not> enabled_flag c
           then (False, ''Required sensor missing: '' @ required_sensor @
                        '' (config key: '' @ config_key @ '')'')
           else check_required sensors_config rest))"

text \<open>\<open>equipment.get("sensors", {})\<close>\<close>

definition sensors_config_of :: "equipment \<Rightarrow> (string \<times> sensor_config) list" where
  "sensors_config_of e = (case sensors e of None \<Rightarrow> [] | Some sc \<Rightarrow> sc)"

definition validate_equipment_config :: "equipment \<Rightarrow> bool \<times> string" where
  "validate_equipment_config e =
     (case map_of EQUIPMENT_TYPES (eq_type e) of
        None \<Rightarrow> (False, ''Unknown equipment type: '' @ eq_type e)
      | Some type_def \<Rightarrow>
          check_required (sensors_config_of e) (sensors_required type_def))"

text \<open>The one instance registered in \<open>EQUIPMENT_REGISTRY\<close>.\<close>

definition fridge_lab_a_01 :: equipment where
  "fridge_lab_a_01 = \<lparr>eq_id = ''fridge_lab_a_01'', eq_type = ''fridge'',
     eq_name = Some ''Main Lab Fridge A1'', location = Some ''Lab A, Corner near sink'',
     sensors = Some [(''thermal_camera'', \<lparr>enabled = Some True\<rparr>),
                     (''microphone'', \<lparr>enabled = Some True\<rparr>),
                     (''gas_sensor'', \<lparr>enabled = Some True\<rparr>),
                     (''temperature'', \<lparr>enabled = Some True\<rparr>)],
     alert_channels = Some [''discord'', ''email'']\<rparr>"

section \<open>premonitor\_main\_multi\_equipment.py\<close>

text \<open>
  The readings dict of one cycle. Only its \<open>"sensors"\<close> entry is read by the code
  modelled here, always through \<open>readings.get("sensors", {})\<close>. The sensors dict is kept
  as an association list in insertion order; a Python dict has each key once.
\<close>

record readings =
  rd_sensors :: "(string \<times> sensor_value) list option"

definition sensors_of :: "readings \<Rightarrow> (string \<times> sensor_value) list" where
  "sensors_of rd = (case rd_sensors rd of None \<Rightarrow> [] | Some s \<Rightarrow> s)"

subsection \<open>build\_lstm\_feature\_vector\<close>

text \<open>\<open>float(sensors.get(key, np.nan))\<close>\<close>

definition scalar_feature :: "(string \<times> sensor_value) list \<Rightarrow> string \<Rightarrow> py_error + pyfloat" where
  "scalar_feature sens key =
     (case map_of sens key of
        None \<Rightarrow> Inr NaN
      | Some v \<Rightarrow> (case py_float v of Inl e \<Rightarrow> Inl e | Inr r \<Rightarrow> Inr (Fl r)))"

text \<open>\<open>np.mean\<close> over all elements; the mean of an empty array is NaN.\<close>

definition np_mean :: "real list \<Rightarrow> pyfloat" where
  "np_mean xs = (if xs = [] then NaN else Fl (sum_list xs / real (length xs)))"

definition np_sqrt :: "pyfloat \<Rightarrow> pyfloat" where
  "np_sqrt x = (case x of NaN \<Rightarrow> NaN | Fl r \<Rightarrow> Fl (sqrt r))"

text \<open>
  \<open>audio = sensors.get("audio")\<close>; the RMS is computed only for an \<open>np.ndarray\<close>, anything
  else (absent, or a scalar) gives NaN.
\<close>

definition acoustic_rms_feature :: "(string \<times> sensor_value) list \<Rightarrow> pyfloat" where
  "acoustic_rms_feature sens =
     (case map_of sens ''audio'' of
        Some (NdArray audio) \<Rightarrow> np_sqrt (np_mean (map (\<lambda>x. x ^ 2) audio))
      | _ \<Rightarrow> NaN)"

definition thermal_mean_feature :: "(string \<times> sensor_value) list \<Rightarrow> pyfloat" where
  "thermal_mean_feature sens =
     (case map_of sens ''thermal'' of
        Some (NdArray thermal) \<Rightarrow> np_mean thermal
      | _ \<Rightarrow> NaN)"

text \<open>
  The final \<open>np.array(feature_vector, dtype=np.float32)\<close> rounds every entry to single
  precision. The rounding function belongs to NumPy and is a parameter \<open>f32\<close> here;
  NaN stays NaN.
\<close>

definition cast_float32 :: "(real \<Rightarrow> real) \<Rightarrow> pyfloat \<Rightarrow> pyfloat" where
  "cast_float32 f32 x = (case x of NaN \<Rightarrow> NaN | Fl r \<Rightarrow> Fl (f32 r))"

definition build_lstm_feature_vector ::
    "(real \<Rightarrow> real) \<Rightarrow> readings \<Rightarrow> string \<Rightarrow> py_error + pyfloat list" where
  "build_lstm_feature_vector f32 rd equipment_type =
     (let sens = sensors_of rd in
      (case scalar_feature sens ''temperature'' of Inl e \<Rightarrow> Inl e | Inr f0 \<Rightarrow>
      (case scalar_feature sens ''gas'' of Inl e \<Rightarrow> Inl e | Inr f1 \<Rightarrow>
      (case scalar_feature sens ''vibration'' of Inl e \<Rightarrow> Inl e | Inr f2 \<Rightarrow>
      (case scalar_feature sens ''current'' of Inl e \<Rightarrow> Inl e | Inr f3 \<Rightarrow>
        Inr (map (cast_float32 f32)
               [f0, f1, f2, f3, acoustic_rms_feature sens, thermal_mean_feature sens]))))))"

subsection \<open>The per-equipment LSTM buffer of monitor\_equipment\<close>

text \<open>
  The global \<open>equipment_lstm_buffers\<close> is a dict from equipment id to a list of feature
  vectors. One cycle of \<open>monitor_equipment\<close> first creates the entry if it is absent,
  then, inside \<open>try\<close>, builds the feature vector, appends it, pops index 0 when the
  list is longer than 50, and hands the list to \<open>run_lstm_inference\<close> when it holds at
  least 50 vectors. If the builder raises, the exception is logged and nothing is
  appended. The second component is the buffer handed to the LSTM, if any.
\<close>

type_synonym feature_vector = "pyfloat list"

type_synonym lstm_buffers = "string \<rightharpoonup> feature_vector list"

definition buffer_of :: "lstm_buffers \<Rightarrow> string \<Rightarrow> feature_vector list" where
  "buffer_of bufs equipment_id = (case bufs equipment_id of None \<Rightarrow> [] | Some b \<Rightarrow> b)"

definition lstm_buffer_step ::
    "lstm_buffers \<Rightarrow> string \<Rightarrow> py_error + feature_vector
       \<Rightarrow> lstm_buffers \<times> feature_vector list option" where
  "lstm_buffer_step bufs equipment_id built =
     (let bufs0 = (if bufs equipment_id = None then bufs(equipment_id \<mapsto> []) else bufs) in
      case built of
        Inl e \<Rightarrow> (bufs0, None)
      | Inr fv \<Rightarrow>
          (let appended = buffer_of bufs0 equipment_id @ [fv];
               kept = (if length appended > 50 then tl appended else appended)
           in (bufs0(equipment_id \<mapsto> kept),
               if length kept \<ge> 50 then Some kept else None)))"

text \<open>
  A run of cycles, each for some equipment id with the outcome of the feature builder;
  the result is the final buffers and, per cycle, what was handed to the LSTM.
\<close>

fun lstm_buffer_run ::
    "lstm_buffers \<Rightarrow> (string \<times> (py_error + feature_vector)) list
       \<Rightarrow> lstm_buffers \<times> feature_vector list option list" where
  "lstm_buffer_run bufs [] = (bufs, [])"
| "lstm_buffer_run bufs ((equipment_id, built) # rest) =
     (let (bufs1, submitted) = lstm_buffer_step bufs equipment_id built;
          (bufs2, later) = lstm_buffer_run bufs1 rest
      in (bufs2, submitted # later))"

text \<open>The vectors successfully built for one equipment id during a run, oldest first.\<close>

fun pushed_for :: "string \<Rightarrow> (string \<times> (py_error + feature_vector)) list \<Rightarrow> feature_vector list" where
  "pushed_for equipment_id [] = []"
| "pushed_for equipment_id ((i, Inl e) # rest) = pushed_for equipment_id rest"
| "pushed_for equipment_id ((i, Inr fv) # rest) =
     (if i = equipment_id then fv # pushed_for equipment_id rest
      else pushed_for equipment_id rest)"

subsection \<open>check\_raw\_sensor\_thresholds\<close>

text \<open>
  The attributes of the \<open>config\<close> module read through \<open>getattr(config, name, None)\<close>;
  \<open>None\<close> is "attribute absent".
\<close>

record config =
  THERMAL_CRITICAL_THRESHOLD_C :: "real option"
  GAS_ANALOG_THRESHOLD :: "real option"

definition default_config :: config where
  "default_config = \<lparr>THERMAL_CRITICAL_THRESHOLD_C = Some 75.0, GAS_ANALOG_THRESHOLD = Some 600\<rparr>"

text \<open>
  One constructor per alert string the function can append, carrying the numbers the
  f-string prints:
  \<^item> \<open>TemperatureOutOfRange\<close>: "Temperature out of expected range: ..."
  \<^item> \<open>CriticalHighTemperature\<close>: "CRITICAL: High temperature detected: ..."
  \<^item> \<open>GasAboveThreshold\<close>: "Gas sensor above threshold: ..."
  \<^item> \<open>CO2OutOfRange\<close>: "CO2 level out of expected range: ..."
  \<^item> \<open>LowOxygen\<close>: "Low oxygen detected: ..."
  \<^item> \<open>HighVibration\<close>: "High vibration detected: ..."
  \<^item> \<open>MotorOverload\<close>: "Motor overload detected: ..."
\<close>

datatype raw_alert =
    TemperatureOutOfRange real "real \<times> real"
  | CriticalHighTemperature real real
  | GasAboveThreshold real real
  | CO2OutOfRange real "real \<times> real"
  | LowOxygen real real
  | HighVibration real real
  | MotorOverload real real

text \<open>The only alert whose text carries the CRITICAL severity.\<close>

fun is_critical :: "raw_alert \<Rightarrow> bool" where
  "is_critical (CriticalHighTemperature t c) = True"
| "is_critical _ = False"

text \<open>
  Each sensor block is \<open>if key in sensors: try: ... except Exception: logger.debug(...)\<close>;
  the only statement of a block that can raise is the \<open>float(...)\<close> conversion at its
  head, in which case the block appends nothing.
\<close>

definition temperature_alerts :: "config \<Rightarrow> thresholds \<Rightarrow> (string \<times> sensor_value) list \<Rightarrow> raw_alert list" where
  "temperature_alerts cfg th sens =
     (case map_of sens ''temperature'' of
        None \<Rightarrow> []
      | Some v \<Rightarrow>
          (case py_float v of
             Inl e \<Rightarrow> []
           | Inr temp_val \<Rightarrow>
               (case temperature_range th of
                  None \<Rightarrow> []
                | Some temp_range \<Rightarrow>
                    if temp_val < fst temp_range \<or> temp_val > snd temp_range
                    then [TemperatureOutOfRange temp_val temp_range] else [])
               @
               (case THERMAL_CRITICAL_THRESHOLD_C cfg of
                  None \<Rightarrow> []
                | Some critical_c \<Rightarrow>
                    if temp_val \<ge> critical_c
                    then [CriticalHighTemperature temp_val critical_c] else [])))"

definition gas_alerts :: "config \<Rightarrow> thresholds \<Rightarrow> (string \<times> sensor_value) list \<Rightarrow> raw_alert list" where
  "gas_alerts cfg th sens =
     (case map_of sens ''gas'' of
        None \<Rightarrow> []
      | Some v \<Rightarrow>
          (case py_float v of
             Inl e \<Rightarrow> []
           | Inr gas_val \<Rightarrow>
               (case (case gas_analog_threshold th of
                        None \<Rightarrow> GAS_ANALOG_THRESHOLD cfg
                      | Some g \<Rightarrow> Some g) of
                  None \<Rightarrow> []
                | Some gas_threshold \<Rightarrow>
                    if gas_val \<ge> gas_threshold
                    then [GasAboveThreshold gas_val gas_threshold] else [])))"

definition co2_alerts :: "thresholds \<Rightarrow> (string \<times> sensor_value) list \<Rightarrow> raw_alert list" where
  "co2_alerts th sens =
     (case map_of sens ''co2'' of
        None \<Rightarrow> []
      | Some v \<Rightarrow>
          (case py_float v of
             Inl e \<Rightarrow> []
           | Inr co2_val \<Rightarrow>
               (case co2_range th of
                  None \<Rightarrow> []
                | Some rng \<Rightarrow>
                    if co2_val < fst rng \<or> co2_val > snd rng
                    then [CO2OutOfRange co2_val rng] else [])))"

definition oxygen_alerts :: "thresholds \<Rightarrow> (string \<times> sensor_value) list \<Rightarrow> raw_alert list" where
  "oxygen_alerts th sens =
     (case map_of sens ''oxygen'' of
        None \<Rightarrow> []
      | Some v \<Rightarrow>
          (case py_float v of
             Inl e \<Rightarrow> []
           | Inr oxy_val \<Rightarrow>
               (case oxygen_min th of
                  None \<Rightarrow> []
                | Some oxy_min \<Rightarrow>
                    if oxy_val < oxy_min then [LowOxygen oxy_val oxy_min] else [])))"

definition vibration_alerts :: "thresholds \<Rightarrow> (string \<times> sensor_value) list \<Rightarrow> raw_alert list" where
  "vibration_alerts th sens =
     (case map_of sens ''vibration'' of
        None \<Rightarrow> []
      | Some v \<Rightarrow>
          (case py_float v of
             Inl e \<Rightarrow> []
           | Inr vib_val \<Rightarrow>
               (case vibration_threshold th of
                  None \<Rightarrow> []
                | Some vib_threshold \<Rightarrow>
                    if vib_val \<ge> vib_threshold
                    then [HighVibration vib_val vib_threshold] else [])))"

definition current_alerts :: "thresholds \<Rightarrow> (string \<times> sensor_value) list \<Rightarrow> raw_alert list" where
  "current_alerts th sens =
     (case map_of sens ''current'' of
        None \<Rightarrow> []
      | Some v \<Rightarrow>
          (case py_float v of
             Inl e \<Rightarrow> []
           | Inr current_val \<Rightarrow>
               (case current_threshold th of
                  None \<Rightarrow> []
                | Some cur_threshold \<Rightarrow>
                    if current_val \<ge> cur_threshold
                    then [MotorOverload current_val cur_threshold] else [])))"

text \<open>The list \<open>alerts\<close> as it stands when the last sensor block is done.\<close>

definition raw_sensor_alerts :: "config \<Rightarrow> thresholds \<Rightarrow> (string \<times> sensor_value) list \<Rightarrow> raw_alert list" where
  "raw_sensor_alerts cfg th sens =
     temperature_alerts cfg th sens @ gas_alerts cfg th sens @ co2_alerts th sens @
     oxygen_alerts th sens @ vibration_alerts th sens @ current_alerts th sens"

subsection \<open>Alert messages and channels\<close>

text \<open>
  Both alerting functions build one message string: a header naming the equipment
  (display name, id, location, type), one bullet line per finding, and a wall-clock
  timestamp line. The message is kept structured, with the findings in bullet order;
  the timestamp line is left out. \<open>send_to_channels\<close> is the loop over the channel
  list: \<open>"discord"\<close> calls \<open>alert_manager.send_discord_alert(message)\<close>, \<open>"email"\<close> calls
  \<open>alert_manager.send_email_alert(subject, message)\<close>, \<open>"sms"\<close> only logs a warning and
  any other name does nothing. An exception of \<open>alert_manager\<close> is caught per channel,
  so every call in the list is attempted.
\<close>

datatype inference_result =
    InferenceError string
  | Thermal_cnn real
  | Acoustic_cnn real
  | Lstm_ae real

datatype anomaly =
    ThermalAnomaly real real
  | AcousticAnomaly real real
  | LstmDegradation real real

datatype alert_message =
    SensorThresholdAlert string string string string "raw_alert list"
  | AnomalyDetected string string string string "anomaly list"

datatype dispatch = Discord alert_message | Email string alert_message

fun message_of :: "dispatch \<Rightarrow> alert_message" where
  "message_of (Discord m) = m"
| "message_of (Email subject m) = m"

fun send_to_channels :: "string \<Rightarrow> alert_message \<Rightarrow> string list \<Rightarrow> dispatch list" where
  "send_to_channels subject m [] = []"
| "send_to_channels subject m (channel # rest) =
     (if channel = ''discord'' then [Discord m]
      else if channel = ''email'' then [Email subject m]
      else [])
     @ send_to_channels subject m rest"

definition channels_of :: "equipment \<Rightarrow> string list" where
  "channels_of e = (case alert_channels e of None \<Rightarrow> [''discord''] | Some cs \<Rightarrow> cs)"

definition location_of :: "equipment \<Rightarrow> string" where
  "location_of e = (case location e of None \<Rightarrow> ''Unknown'' | Some l \<Rightarrow> l)"

text \<open>
  \<open>check_raw_sensor_thresholds\<close>: if any raw alert was found, one message listing all of
  them is sent to every channel. The display name is \<open>equipment.get('name', equipment_id)\<close>.
\<close>

definition display_name_of :: "equipment \<Rightarrow> string" where
  "display_name_of e = (case eq_name e of None \<Rightarrow> eq_id e | Some n \<Rightarrow> n)"

definition check_raw_sensor_thresholds :: "config \<Rightarrow> equipment \<Rightarrow> readings \<Rightarrow> py_error + dispatch list" where
  "check_raw_sensor_thresholds cfg e rd =
     (case get_equipment_thresholds (eq_type e) of
        Inl err \<Rightarrow> Inl err
      | Inr th \<Rightarrow>
          (let alerts = raw_sensor_alerts cfg th (sensors_of rd)
           in if alerts \<noteq> []
              then Inr (send_to_channels (''Sensor Threshold Alert: '' @ display_name_of e)
                          (SensorThresholdAlert (display_name_of e) (eq_id e) (location_of e)
                             (eq_type e) alerts)
                          (channels_of e))
              else Inr []))"

subsection \<open>check\_anomaly\_and\_alert\<close>

text \<open>
  One pass of the loop body over an inference result: a result dict with an
  \<open>"error"\<close> key is skipped; otherwise the model name selects the threshold key, read
  with a literal default (\<open>thresholds.get("thermal_anomaly_confidence", 0.85)\<close> and so on).
\<close>

fun anomaly_of :: "thresholds \<Rightarrow> inference_result \<Rightarrow> anomaly list" where
  "anomaly_of th (InferenceError msg) = []"
| "anomaly_of th (Thermal_cnn confidence) =
     (let threshold = (case thermal_anomaly_confidence th of None \<Rightarrow> 0.85 | Some t \<Rightarrow> t)
      in if confidence > threshold then [ThermalAnomaly confidence threshold] else [])"
| "anomaly_of th (Acoustic_cnn confidence) =
     (let threshold = (case acoustic_anomaly_confidence th of None \<Rightarrow> 0.85 | Some t \<Rightarrow> t)
      in if confidence > threshold then [AcousticAnomaly confidence threshold] else [])"
| "anomaly_of th (Lstm_ae reconstruction_error) =
     (let threshold = (case lstm_reconstruction_threshold th of None \<Rightarrow> 0.045 | Some t \<Rightarrow> t)
      in if reconstruction_error > threshold
         then [LstmDegradation reconstruction_error threshold] else [])"

fun anomalies_detected :: "thresholds \<Rightarrow> inference_result list \<Rightarrow> anomaly list" where
  "anomalies_detected th [] = []"
| "anomalies_detected th (result # rest) = anomaly_of th result @ anomalies_detected th rest"

text \<open>
  If any anomaly was found, one message listing all of them is sent to every channel.
  The header subscripts \<open>equipment['name']\<close>, which raises \<open>KeyError\<close> for an instance
  without a name before anything is sent.
\<close>

definition check_anomaly_and_alert :: "equipment \<Rightarrow> inference_result list \<Rightarrow> py_error + dispatch list" where
  "check_anomaly_and_alert e inference_results =
     (case get_equipment_thresholds (eq_type e) of
        Inl err \<Rightarrow> Inl err
      | Inr th \<Rightarrow>
          (let found = anomalies_detected th inference_results
           in if found \<noteq> []
              then (case eq_name e of
                      None \<Rightarrow> Inl KeyError
                    | Some n \<Rightarrow>
                        Inr (send_to_channels (''Anomaly: '' @ n)
                               (AnomalyDetected n (eq_id e) (location_of e) (eq_type e) found)
                               (channels_of e)))
              else Inr []))"

section \<open>premonitor\_main\_hardened.py\<close>

subsection \<open>run\_inference\<close>

text \<open>
  The TFLite interpreter is external. A tensor is its shape and the flat list of its
  elements, each a float that may be NaN. \<open>get_input_details()\<close> and
  \<open>get_output_details()\<close> return a list of detail dicts or raise; \<open>forward\<close> stands for
  \<open>set_tensor\<close>, \<open>invoke\<close> and \<open>get_tensor\<close> in sequence: it maps the prepared input
  tensor to the output tensor or raises (for instance on a tensor of the wrong rank).
  A shape entry of the model is an integer, \<open>-1\<close> or \<open>None\<close>.
\<close>

datatype dtype = UInt8 | Int8 | Float32

record tensor =
  shape :: "int list"
  elems :: "pyfloat list"

record tensor_details =
  td_shape :: "int option list"
  td_dtype :: dtype
  td_quantization :: "real \<times> real"

record interpreter =
  get_input_details :: "py_error + tensor_details list"
  get_output_details :: "py_error + tensor_details list"
  forward :: "tensor \<Rightarrow> py_error + tensor"

text \<open>NumPy's \<open>astype\<close> conversions, parameters of the model.\<close>

record np_casts =
  astype_uint8 :: "pyfloat \<Rightarrow> pyfloat"
  astype_int8 :: "pyfloat \<Rightarrow> pyfloat"
  astype_float32 :: "pyfloat \<Rightarrow> pyfloat"

definition normalize_shape :: "int option list \<Rightarrow> int list" where
  "normalize_shape shp = map (\<lambda>x. case x of None \<Rightarrow> - 1 | Some n \<Rightarrow> if n = - 1 then - 1 else n) shp"

text \<open>Arithmetic of a float with finite constants: NaN stays NaN.\<close>

fun py_arith :: "(real \<Rightarrow> real) \<Rightarrow> pyfloat \<Rightarrow> pyfloat" where
  "py_arith f NaN = NaN"
| "py_arith f (Fl r) = Fl (f r)"

text \<open>
  \<open>np.clip(x, lo, hi)\<close>: a number is moved into \<open>[lo, hi]\<close>; NaN is returned as it is,
  without an exception.
\<close>

fun np_clip :: "pyfloat \<Rightarrow> real \<Rightarrow> real \<Rightarrow> pyfloat" where
  "np_clip NaN lo hi = NaN"
| "np_clip (Fl r) lo hi = Fl (min (max r lo) hi)"

text \<open>\<open>xs[0]\<close> on a list\<close>

definition first_item :: "'a list \<Rightarrow> py_error + 'a" where
  "first_item xs = (case xs of [] \<Rightarrow> Inl IndexError | x # _ \<Rightarrow> Inr x)"

text \<open>
  \<open>np.expand_dims(input_data, axis=0)\<close> followed by the dtype-specific scaling. NumPy
  divides by a zero scale without raising and gives an infinity or NaN; that value,
  which only reaches the external cast, is NaN here.
\<close>

definition prepare_input :: "np_casts \<Rightarrow> tensor_details \<Rightarrow> tensor \<Rightarrow> tensor" where
  "prepare_input casts input_details input_data =
     (case td_dtype input_details of
        UInt8 \<Rightarrow>
          \<lparr>shape = 1 # shape input_data,
           elems = map (\<lambda>x. astype_uint8 casts (py_arith (\<lambda>r. r * 255) (np_clip x 0 1)))
                     (elems input_data)\<rparr>
      | Int8 \<Rightarrow>
          (let (scale, zero_point) = td_quantization input_details in
           \<lparr>shape = 1 # shape input_data,
            elems = map (\<lambda>x. astype_int8 casts
                               (if scale = 0 then NaN
                                else py_arith (\<lambda>r. r / scale + zero_point) x))
                      (elems input_data)\<rparr>)
      | Float32 \<Rightarrow>
          \<lparr>shape = 1 # shape input_data,
           elems = map (astype_float32 casts) (elems input_data)\<rparr>)"

definition dequantize_output :: "np_casts \<Rightarrow> tensor_details \<Rightarrow> tensor \<Rightarrow> tensor" where
  "dequantize_output casts output_details prediction =
     (if td_dtype output_details = UInt8 \<or> td_dtype output_details = Int8
      then (let (scale, zero_point) = td_quantization output_details in
            prediction\<lparr>elems := map (\<lambda>x. py_arith (\<lambda>r. (r - zero_point) * scale)
                                           (astype_float32 casts x))
                                   (elems prediction)\<rparr>)
      else prediction)"

text \<open>
  The body of the \<open>try\<close> block; \<open>Inl\<close> is an exception raised inside it. The early
  \<open>return 0.0\<close> on a shape mismatch is \<open>Inr (Fl 0)\<close>. The last two statements are
  \<open>score = float(np.ravel(prediction)[0])\<close> and \<open>score = np.clip(score, 0.0, 1.0)\<close>.
\<close>

definition run_inference_try :: "np_casts \<Rightarrow> interpreter \<Rightarrow> tensor \<Rightarrow> py_error + pyfloat" where
  "run_inference_try casts interp input_data =
     (case get_input_details interp of Inl e \<Rightarrow> Inl e | Inr ins \<Rightarrow>
     (case first_item ins of Inl e \<Rightarrow> Inl e | Inr input_details \<Rightarrow>
     (case get_output_details interp of Inl e \<Rightarrow> Inl e | Inr outs \<Rightarrow>
     (case first_item outs of Inl e \<Rightarrow> Inl e | Inr output_details \<Rightarrow>
        (let expected_shape = normalize_shape (drop 1 (td_shape input_details));
             input_shape = shape input_data
         in if \<not> list_all (\<lambda>(exp, inp). exp = - 1 \<or> exp = inp) (zip expected_shape input_shape)
            then Inr (Fl 0)
            else (case forward interp (prepare_input casts input_details input_data) of
                    Inl e \<Rightarrow> Inl e
                  | Inr prediction \<Rightarrow>
                      (case first_item (elems (dequantize_output casts output_details prediction)) of
                         Inl e \<Rightarrow> Inl e
                       | Inr score \<Rightarrow> Inr (np_clip score 0 1))))))))"

text \<open>\<open>interpreter is None\<close> returns 0.0, and so does \<open>except Exception\<close>.\<close>

definition run_inference :: "np_casts \<Rightarrow> interpreter option \<Rightarrow> tensor \<Rightarrow> pyfloat" where
  "run_inference casts interp input_data =
     (case interp of
        None \<Rightarrow> Fl 0
      | Some i \<Rightarrow>
          (case run_inference_try casts i input_data of
             Inl e \<Rightarrow> Fl 0
           | Inr score \<Rightarrow> score))"

subsection \<open>The fusion step of main\<close>

text \<open>
  The configuration module of the hardened script (\<open>premonitor_config_py\<close>) is not part
  of the sources; the four attributes the loop reads are a record, and the values of
  \<open>config.py\<close> serve as the default. \<open>MAIN_GAS_ANALOG_THRESHOLD\<close> is
  \<open>config.GAS_ANALOG_THRESHOLD\<close>.
\<close>

record main_config =
  THERMAL_ANOMALY_CONFIDENCE :: real
  ACOUSTIC_ANOMALY_CONFIDENCE :: real
  FUSION_CORRELATION_CONFIDENCE :: real
  MAIN_GAS_ANALOG_THRESHOLD :: real

definition default_main_config :: main_config where
  "default_main_config = \<lparr>THERMAL_ANOMALY_CONFIDENCE = 0.80, ACOUSTIC_ANOMALY_CONFIDENCE = 0.75,
     FUSION_CORRELATION_CONFIDENCE = 0.60, MAIN_GAS_ANALOG_THRESHOLD = 600\<rparr>"

text \<open>
  One constructor per call of \<open>alert_manager.send_alert_in_background\<close>:
  "CRITICAL: High-Confidence Thermal Anomaly", "CRITICAL: High-Confidence Acoustic
  Anomaly", "WARNING: Correlated Anomaly Detected", "WARNING: High Gas Level Detected".
\<close>

datatype main_alert =
    CriticalThermalAnomaly real
  | CriticalAcousticAnomaly real
  | CorrelatedAnomaly real real
  | HighGasLevel real

text \<open>Step 3 of the loop: the \<open>if/elif/elif\<close> chain over the two scores.\<close>

definition model_fusion_alerts :: "main_config \<Rightarrow> real \<Rightarrow> real \<Rightarrow> main_alert list" where
  "model_fusion_alerts cfg thermal_score acoustic_score =
     (if thermal_score > THERMAL_ANOMALY_CONFIDENCE cfg
        then [CriticalThermalAnomaly thermal_score]
      else if acoustic_score > ACOUSTIC_ANOMALY_CONFIDENCE cfg
        then [CriticalAcousticAnomaly acoustic_score]
      else if thermal_score > FUSION_CORRELATION_CONFIDENCE cfg \<and>
              acoustic_score > FUSION_CORRELATION_CONFIDENCE cfg
        then [CorrelatedAnomaly thermal_score acoustic_score]
      else [])"

text \<open>... followed by the independent \<open>if\<close> on the gas reading.\<close>

definition sensor_fusion_alerts :: "main_config \<Rightarrow> real \<Rightarrow> real \<Rightarrow> real \<Rightarrow> main_alert list" where
  "sensor_fusion_alerts cfg thermal_score acoustic_score gas_reading =
     model_fusion_alerts cfg thermal_score acoustic_score @
     (if gas_reading > MAIN_GAS_ANALOG_THRESHOLD cfg then [HighGasLevel gas_reading] else [])"

section \<open>security\_monitor.py\<close>

text \<open>
  The entries of the global \<open>SECURITY_CONFIG\<close> dict that the monitoring code reads.
  Times are seconds on the wall clock.
\<close>

record security_config =
  motion_detection_enabled :: bool
  cooldown_seconds :: real
  tamper_detection_enabled :: bool
  tamper_vibration_threshold :: real
  temperature_change_rate :: real
  activity_logging_enabled :: bool
  log_all_access :: bool

definition SECURITY_CONFIG :: security_config where
  "SECURITY_CONFIG = \<lparr>motion_detection_enabled = True, cooldown_seconds = 300,
     tamper_detection_enabled = True, tamper_vibration_threshold = 2.0,
     temperature_change_rate = 5.0, activity_logging_enabled = True,
     log_all_access = True\<rparr>"

subsection \<open>MotionDetector\<close>

record motion_detector =
  last_motion_time :: "real option"
  motion_active :: bool

text \<open>\<open>MotionDetector.__init__\<close>\<close>

definition new_motion_detector :: motion_detector where
  "new_motion_detector = \<lparr>last_motion_time = None, motion_active = False\<rparr>"

text \<open>
  \<open>detect_motion\<close>: \<open>motion\<close> is what the PIR pin (or the mock) reads in this call and
  \<open>now\<close> is the value of \<open>datetime.now()\<close> at the rising edge.
\<close>

definition detect_motion ::
    "security_config \<Rightarrow> bool \<Rightarrow> real \<Rightarrow> motion_detector \<Rightarrow> bool \<times> motion_detector" where
  "detect_motion cfg motion now md =
     (if \<not> motion_detection_enabled cfg then (False, md)
      else if motion \<and> \<not> motion_active md
        then (True, md\<lparr>last_motion_time := Some now, motion_active := True\<rparr>)
      else if \<not> motion \<and> motion_active md
        then (motion, md\<lparr>motion_active := False\<rparr>)
      else (motion, md))"

definition is_cooldown_active :: "security_config \<Rightarrow> real \<Rightarrow> motion_detector \<Rightarrow> bool" where
  "is_cooldown_active cfg now md =
     (case last_motion_time md of
        None \<Rightarrow> False
      | Some t \<Rightarrow> now - t < cooldown_seconds cfg)"

subsection \<open>TamperDetector\<close>

text \<open>
  A baseline entry holds \<open>sensors.get("temperature")\<close> as it was read (\<open>None\<close> when the
  cycle had no temperature) and the time of the update.
\<close>

record baseline =
  b_temperature :: "sensor_value option"
  b_timestamp :: real

record tamper_detector =
  baseline_readings :: "string \<rightharpoonup> baseline"

definition new_tamper_detector :: tamper_detector where
  "new_tamper_detector = \<lparr>baseline_readings = Map.empty\<rparr>"

text \<open>
  The returned dict: \<open>"physical_tampering"\<close> with the vibration value, or
  \<open>"thermal_tampering"\<close> with the rate of change.
\<close>

datatype tamper_result = PhysicalTampering real | ThermalTampering real

text \<open>
  The stored temperature as the rate formula uses it: a number, or a one-element array.
  With any other array the comparison yields an array that has no plain truth value;
  the \<open>if\<close> on it is modelled as raising.
\<close>

fun baseline_number :: "sensor_value \<Rightarrow> py_error + real" where
  "baseline_number (Scalar r) = Inr r"
| "baseline_number (NdArray [x]) = Inr x"
| "baseline_number (NdArray xs) = Inl ValueError"

text \<open>The statement under the comment "Update baseline readings", then \<open>return None\<close>.\<close>

definition update_baseline ::
    "real \<Rightarrow> tamper_detector \<Rightarrow> string \<Rightarrow> (string \<times> sensor_value) list
       \<Rightarrow> py_error + tamper_result option \<times> tamper_detector" where
  "update_baseline now td equipment_id sens =
     Inr (None,
          td\<lparr>baseline_readings := (baseline_readings td)
                (equipment_id \<mapsto> \<lparr>b_temperature = map_of sens ''temperature'',
                                   b_timestamp = now\<rparr>)\<rparr>)"

text \<open>Check 2, the rate of temperature change against the stored baseline.\<close>

definition check_temperature_rate ::
    "security_config \<Rightarrow> real \<Rightarrow> real \<Rightarrow> tamper_detector \<Rightarrow> string
       \<Rightarrow> (string \<times> sensor_value) list \<Rightarrow> py_error + tamper_result option \<times> tamper_detector" where
  "check_temperature_rate cfg now_rate now_update td equipment_id sens =
     (case baseline_readings td equipment_id of
        None \<Rightarrow> update_baseline now_update td equipment_id sens
      | Some b \<Rightarrow>
          (case map_of sens ''temperature'' of
             None \<Rightarrow> update_baseline now_update td equipment_id sens
           | Some cur \<Rightarrow>
               (case b_temperature b of
                  None \<Rightarrow> update_baseline now_update td equipment_id sens
                | Some prev \<Rightarrow>
                    (case py_float cur of
                       Inl e \<Rightarrow> Inl e
                     | Inr current_temp \<Rightarrow>
                         (let time_diff = (now_rate - b_timestamp b) / 60 in
                          if time_diff > 0
                          then (case baseline_number prev of
                                  Inl e \<Rightarrow> Inl e
                                | Inr prev_temp \<Rightarrow>
                                    (let temp_change_rate = \<bar>current_temp - prev_temp\<bar> / time_diff in
                                     if temp_change_rate > temperature_change_rate cfg
                                     then Inr (Some (ThermalTampering temp_change_rate), td)
                                     else update_baseline now_update td equipment_id sens))
                          else update_baseline now_update td equipment_id sens)))))"

text \<open>
  \<open>check_tamper\<close>: \<open>now_rate\<close> and \<open>now_update\<close> are the two readings of
  \<open>datetime.now()\<close>, in the rate formula and in the baseline update.
\<close>

definition check_tamper ::
    "security_config \<Rightarrow> real \<Rightarrow> real \<Rightarrow> tamper_detector \<Rightarrow> string \<Rightarrow> readings
       \<Rightarrow> py_error + tamper_result option \<times> tamper_detector" where
  "check_tamper cfg now_rate now_update td equipment_id rd =
     (if \<not> tamper_detection_enabled cfg then Inr (None, td)
      else
        (let sens = sensors_of rd in
         case map_of sens ''vibration'' of
           None \<Rightarrow> check_temperature_rate cfg now_rate now_update td equipment_id sens
         | Some v \<Rightarrow>
             (case py_float v of
                Inl e \<Rightarrow> Inl e
              | Inr vib_val \<Rightarrow>
                  if vib_val \<ge> tamper_vibration_threshold cfg
                  then Inr (Some (PhysicalTampering vib_val), td)
                  else check_temperature_rate cfg now_rate now_update td equipment_id sens)))"

subsection \<open>Activity log, intrusion alerts and monitor\_security\<close>

text \<open>
  What one call of \<open>monitor_security\<close> takes from outside: the motion pin, the result of
  \<open>is_after_hours()\<close>, and the readings of the wall clock at the places that use them.
\<close>

record security_env =
  motion_read :: bool
  after_hours :: bool
  t_detect :: real
  t_cooldown :: real
  t_rate :: real
  t_update :: real
  t_log :: real

text \<open>The event type of a log entry together with its details dict.\<close>

datatype activity =
    MotionDetected string bool bool
  | TamperDetected tamper_result
  | RoutineMonitoring "string list" bool

record log_entry =
  le_timestamp :: real
  le_activity :: activity
  le_equipment_id :: string
  le_after_hours :: bool

text \<open>
  One call of \<open>send_intrusion_alert\<close>: the equipment id, the alert type
  (\<open>"unauthorized_motion"\<close> or \<open>"equipment_tampering"\<close> with its details) and whether a
  thermal frame was there to capture.
\<close>

datatype intrusion_alert =
    UnauthorizedMotion string bool
  | EquipmentTampering string tamper_result bool

fun is_motion_alert :: "intrusion_alert \<Rightarrow> bool" where
  "is_motion_alert (UnauthorizedMotion i f) = True"
| "is_motion_alert _ = False"

fun is_motion_entry :: "log_entry \<Rightarrow> bool" where
  "is_motion_entry le = (case le_activity le of MotionDetected l a t \<Rightarrow> True | _ \<Rightarrow> False)"

text \<open>
  The module globals (\<open>None\<close> until \<open>initialize_security_monitoring\<close> has run), the
  activity log file and the alerts sent so far.
\<close>

record security_state =
  detectors :: "(motion_detector \<times> tamper_detector) option"
  activity_log :: "log_entry list"
  intrusion_alerts :: "intrusion_alert list"

definition initial_security_state :: security_state where
  "initial_security_state = \<lparr>detectors = None, activity_log = [], intrusion_alerts = []\<rparr>"

definition log_activity ::
    "security_config \<Rightarrow> security_env \<Rightarrow> activity \<Rightarrow> string \<Rightarrow> log_entry list \<Rightarrow> log_entry list" where
  "log_activity cfg env act equipment_id lg =
     (if \<not> activity_logging_enabled cfg then lg
      else lg @ [\<lparr>le_timestamp = t_log env, le_activity = act,
                  le_equipment_id = equipment_id, le_after_hours = after_hours env\<rparr>])"

text \<open>The motion block of \<open>monitor_security\<close>.\<close>

definition motion_phase ::
    "security_config \<Rightarrow> security_env \<Rightarrow> equipment \<Rightarrow> readings \<Rightarrow> motion_detector
       \<Rightarrow> log_entry list \<Rightarrow> intrusion_alert list
       \<Rightarrow> motion_detector \<times> log_entry list \<times> intrusion_alert list" where
  "motion_phase cfg env e rd md lg alerts =
     (if after_hours env \<or> motion_detection_enabled cfg
      then (let (motion_detected, md') = detect_motion cfg (motion_read env) (t_detect env) md;
                has_thermal = (map_of (sensors_of rd) ''thermal'' \<noteq> None)
            in if motion_detected \<and> \<not> is_cooldown_active cfg (t_cooldown env) md'
               then (md',
                     log_activity cfg env
                       (MotionDetected (location_of e) (after_hours env) has_thermal) (eq_id e) lg,
                     alerts @ [UnauthorizedMotion (eq_id e) has_thermal])
               else (md', lg, alerts))
      else (md, lg, alerts))"

text \<open>
  \<open>monitor_security\<close>. An exception of \<open>check_tamper\<close> leaves the function after the
  motion block has taken effect; the caller logs it and goes on.
\<close>

definition monitor_security ::
    "security_config \<Rightarrow> security_env \<Rightarrow> security_state \<Rightarrow> equipment \<Rightarrow> readings
       \<Rightarrow> security_state \<times> py_error option" where
  "monitor_security cfg env st e rd =
     (let (md, td) = (case detectors st of
                        None \<Rightarrow> (new_motion_detector, new_tamper_detector)
                      | Some g \<Rightarrow> g);
          (md1, lg1, alerts1) =
             motion_phase cfg env e rd md (activity_log st) (intrusion_alerts st)
      in case check_tamper cfg (t_rate env) (t_update env) td (eq_id e) rd of
           Inl err \<Rightarrow>
             (\<lparr>detectors = Some (md1, td), activity_log = lg1, intrusion_alerts = alerts1\<rparr>,
              Some err)
         | Inr (tamper, td1) \<Rightarrow>
             (let has_thermal = (map_of (sensors_of rd) ''thermal'' \<noteq> None);
                  (lg2, alerts2) =
                     (case tamper of
                        None \<Rightarrow> (lg1, alerts1)
                      | Some r \<Rightarrow>
                          (log_activity cfg env (TamperDetected r) (eq_id e) lg1,
                           alerts1 @ [EquipmentTampering (eq_id e) r has_thermal]));
                  lg3 = (if log_all_access cfg
                         then log_activity cfg env
                                (RoutineMonitoring (map fst (sensors_of rd)) (after_hours env))
                                (eq_id e) lg2
                         else lg2)
              in (\<lparr>detectors = Some (md1, td1), activity_log = lg3, intrusion_alerts = alerts2\<rparr>,
                  None)))"

text \<open>A run of calls for one equipment, as the monitoring loop makes them.\<close>

fun security_run ::
    "security_config \<Rightarrow> equipment \<Rightarrow> security_state \<Rightarrow> (security_env \<times> readings) list
       \<Rightarrow> security_state" where
  "security_run cfg e st [] = st"
| "security_run cfg e st ((env, rd) # rest) =
     security_run cfg e (fst (monitor_security cfg env st e rd)) rest"

definition motion_alert_count :: "security_state \<Rightarrow> nat" where
  "motion_alert_count st = length (filter is_motion_alert (intrusion_alerts st))"

definition motion_log_count :: "security_state \<Rightarrow> nat" where
  "motion_log_count st = length (filter is_motion_entry (activity_log st))"

text \<open>A call at wall-clock time \<open>t\<close> (every clock reading of the call gives \<open>t\<close>).\<close>

definition env_at :: "real \<Rightarrow> bool \<Rightarrow> security_env" where
  "env_at t motion = \<lparr>motion_read = motion, after_hours = False, t_detect = t,
     t_cooldown = t, t_rate = t, t_update = t, t_log = t\<rparr>"

section \<open>The alerts of one monitor\_equipment cycle\<close>

text \<open>
  \<open>SECURITY_CONFIG["intrusion_response"]\<close>: the three switches \<open>send_intrusion_alert\<close>
  reads.
\<close>

record intrusion_response =
  send_sms :: bool
  send_email :: bool
  send_discord :: bool

definition INTRUSION_RESPONSE :: intrusion_response where
  "INTRUSION_RESPONSE = \<lparr>send_sms = True, send_email = True, send_discord = True\<rparr>"

text \<open>
  A call of \<open>alert_manager\<close>: one of the equipment alerts above (discord or email), or
  one of the three calls of \<open>send_intrusion_alert\<close> (\<open>send_discord_alert\<close>,
  \<open>send_email_alert\<close>, \<open>send_sms_alert\<close>), each carrying the intrusion alert.
\<close>

datatype manager_call =
    EquipmentAlert dispatch
  | IntrusionDiscord intrusion_alert
  | IntrusionEmail intrusion_alert
  | IntrusionSms intrusion_alert

text \<open>
  The sending part of \<open>send_intrusion_alert\<close>: Discord, then email, then SMS, each if
  switched on and each inside its own \<open>try/except\<close>.
\<close>

definition send_intrusion_alert :: "intrusion_response \<Rightarrow> intrusion_alert \<Rightarrow> manager_call list" where
  "send_intrusion_alert resp a =
     (if send_discord resp then [IntrusionDiscord a] else []) @
     (if send_email resp then [IntrusionEmail a] else []) @
     (if send_sms resp then [IntrusionSms a] else [])"

text \<open>
  The alerting of one \<open>monitor_equipment\<close> cycle, given the cycle's readings and the
  results of the inference calls. The security pass runs first inside \<open>try/except\<close>;
  the intrusion alerts it adds to the state in this call are the calls of
  \<open>send_intrusion_alert\<close> of the cycle. The raw threshold check runs next, also inside
  \<open>try/except\<close> (an exception is logged and the cycle goes on). The model check runs
  last and its exception leaves the function. The result is the security state after
  the cycle, every call made to \<open>alert_manager\<close>, in order, and the exception that
  ended the cycle, if any.
\<close>

definition monitor_equipment_alerts ::
    "security_config \<Rightarrow> intrusion_response \<Rightarrow> security_env \<Rightarrow> security_state \<Rightarrow> config
       \<Rightarrow> equipment \<Rightarrow> readings \<Rightarrow> inference_result list
       \<Rightarrow> security_state \<times> manager_call list \<times> py_error option" where
  "monitor_equipment_alerts scfg resp env st cfg e rd inference_results =
     (let (st', security_error) = monitor_security scfg env st e rd;
          security_calls =
            concat (map (send_intrusion_alert resp)
                      (drop (length (intrusion_alerts st)) (intrusion_alerts st')));
          raw = (case check_raw_sensor_thresholds cfg e rd of Inl err \<Rightarrow> [] | Inr ds \<Rightarrow> ds)
      in case check_anomaly_and_alert e inference_results of
           Inl err \<Rightarrow> (st', security_calls @ map EquipmentAlert raw, Some err)
         | Inr ds \<Rightarrow> (st', security_calls @ map EquipmentAlert (raw @ ds), None))"

text \<open>
  The sends of a composite message over a channel list: one per \<open>"discord"\<close> or
  \<open>"email"\<close> entry, in list order.
\<close>

definition composite_sends :: "string \<Rightarrow> alert_message \<Rightarrow> string list \<Rightarrow> manager_call list" where
  "composite_sends subject m channels =
     map (\<lambda>c. EquipmentAlert (if c = ''discord'' then Discord m else Email subject m))
         (filter (\<lambda>c. c = ''discord'' \<or> c = ''email'') channels)"

text \<open>The \<open>n\<close> newest elements of a list that is kept oldest first.\<close>

definition newest :: "nat \<Rightarrow> 'a list \<Rightarrow> 'a list" where
  "newest n xs = drop (length xs - n) xs"

section \<open>Concrete instances used in the examples\<close>

text \<open>A fridge whose microphone is wired but switched off.\<close>

definition fridge_mic_off :: equipment where
  "fridge_mic_off = \<lparr>eq_id = ''fridge_lab_b_02'', eq_type = ''fridge'',
     eq_name = Some ''Lab B Fridge'', location = None,
     sensors = Some [(''thermal_camera'', \<lparr>enabled = Some True\<rparr>),
                     (''microphone'', \<lparr>enabled = Some False\<rparr>)],
     alert_channels = None\<rparr>"

text \<open>The equipment dict of the raw-alert unit tests.\<close>

definition test_fridge :: equipment where
  "test_fridge = \<lparr>eq_id = ''test_fridge'', eq_type = ''fridge'',
     eq_name = Some ''Test Fridge'', location = None, sensors = None,
     alert_channels = Some [''discord'']\<rparr>"

text \<open>
  Casts that leave every value as it is, a two-pixel input, an interpreter whose run
  raises, and one whose float output is 1.7.
\<close>

definition exact_casts :: np_casts where
  "exact_casts = \<lparr>astype_uint8 = (\<lambda>x. x), astype_int8 = (\<lambda>x. x), astype_float32 = (\<lambda>x. x)\<rparr>"

definition small_image :: tensor where
  "small_image = \<lparr>shape = [2], elems = [Fl 0.5, Fl 0.25]\<rparr>"

definition broken_interpreter :: interpreter where
  "broken_interpreter = \<lparr>
     get_input_details = Inr [\<lparr>td_shape = [Some 1, Some 2], td_dtype = Float32,
                               td_quantization = (0, 0)\<rparr>],
     get_output_details = Inr [\<lparr>td_shape = [Some 1, Some 1], td_dtype = Float32,
                                td_quantization = (0, 0)\<rparr>],
     forward = (\<lambda>t. Inl ValueError)\<rparr>"

definition overshooting_interpreter :: interpreter where
  "overshooting_interpreter = \<lparr>
     get_input_details = Inr [\<lparr>td_shape = [Some 1, Some 2], td_dtype = Float32,
                               td_quantization = (0, 0)\<rparr>],
     get_output_details = Inr [\<lparr>td_shape = [Some 1, Some 1], td_dtype = Float32,
                                td_quantization = (0, 0)\<rparr>],
     forward = (\<lambda>t. Inr \<lparr>shape = [1, 1], elems = [Fl 1.7]\<rparr>)\<rparr>"

text \<open>A float32 model whose output for the frame is NaN.\<close>

definition nan_interpreter :: interpreter where
  "nan_interpreter = \<lparr>
     get_input_details = Inr [\<lparr>td_shape = [Some 1, Some 2], td_dtype = Float32,
                               td_quantization = (0, 0)\<rparr>],
     get_output_details = Inr [\<lparr>td_shape = [Some 1, Some 1], td_dtype = Float32,
                                td_quantization = (0, 0)\<rparr>],
     forward = (\<lambda>t. Inr \<lparr>shape = [1, 1], elems = [NaN]\<rparr>)\<rparr>"

text \<open>A frame of three pixels, which does not fit the two-pixel input of these models.\<close>

definition wide_image :: tensor where
  "wide_image = \<lparr>shape = [3], elems = [Fl 0.5, Fl 0.25, Fl 0.125]\<rparr>"

text \<open>The fridge at 80 C, and the same cycle with a 3 G knock.\<close>

definition fridge_at_80 :: readings where
  "fridge_at_80 = \<lparr>rd_sensors = Some [(''temperature'', Scalar 80)]\<rparr>"

definition fridge_at_80_knocked :: readings where
  "fridge_at_80_knocked =
     \<lparr>rd_sensors = Some [(''temperature'', Scalar 80), (''vibration'', Scalar 3)]\<rparr>"

text \<open>A cycle without any sensor reading, and a fridge baseline of 5 C taken at time 0.\<close>

definition no_readings :: readings where
  "no_readings = \<lparr>rd_sensors = Some []\<rparr>"

definition fridge_baseline :: tamper_detector where
  "fridge_baseline = \<lparr>baseline_readings =
     [''fridge_lab_a_01'' \<mapsto> \<lparr>b_temperature = Some (Scalar 5), b_timestamp = 0\<rparr>]\<rparr>"

section \<open>Registry lemmas\<close>

lemma fridge_in_table: "map_of EQUIPMENT_THRESHOLDS ''fridge'' = Some fridge_thresholds"
  by (simp add: EQUIPMENT_THRESHOLDS_def)

lemma get_equipment_thresholds_total:
  "\<exists>p. get_equipment_thresholds t = Inr p"
  by (simp add: get_equipment_thresholds_def fridge_in_table split: option.split)

text \<open>
  Claim C8. For every equipment-type string \<open>get_equipment_thresholds\<close> returns a
  profile (no \<open>KeyError\<close>); a type that is not a key of \<open>EQUIPMENT_THRESHOLDS\<close> gets the
  profile stored under \<open>"fridge"\<close>, and a type that is a key gets its own entry.
\<close>

theorem get_equipment_thresholds_never_fails:
  "(\<exists>p. get_equipment_thresholds t = Inr p) \<and>
   (t \<notin> fst ` set EQUIPMENT_THRESHOLDS \<longrightarrow>
      get_equipment_thresholds t = Inr fridge_thresholds) \<and>
   map_of EQUIPMENT_THRESHOLDS ''fridge'' = Some fridge_thresholds \<and>
   (\<forall>p. map_of EQUIPMENT_THRESHOLDS t = Some p \<longrightarrow> get_equipment_thresholds t = Inr p)"
  by (auto simp add: get_equipment_thresholds_def fridge_in_table map_of_eq_None_iff [symmetric]
           simp del: map_of_eq_None_iff split: option.split)

theorem get_equipment_thresholds_never_fails_witness:
  "''cryostat'' \<notin> fst ` set EQUIPMENT_THRESHOLDS \<and>
   get_equipment_thresholds ''cryostat'' = Inr fridge_thresholds \<and>
   map_of EQUIPMENT_THRESHOLDS ''shaker'' =
     Some (no_thresholds\<lparr>acoustic_anomaly_confidence := Some 0.80,
             lstm_reconstruction_threshold := Some 0.050, vibration_threshold := Some 0.3\<rparr>) \<and>
   get_equipment_thresholds ''shaker'' =
     Inr (no_thresholds\<lparr>acoustic_anomaly_confidence := Some 0.80,
            lstm_reconstruction_threshold := Some 0.050, vibration_threshold := Some 0.3\<rparr>)"
proof -
  have absent: "''cryostat'' \<notin> fst ` set EQUIPMENT_THRESHOLDS"
    by (simp add: EQUIPMENT_THRESHOLDS_def)
  have present: "map_of EQUIPMENT_THRESHOLDS ''shaker'' =
     Some (no_thresholds\<lparr>acoustic_anomaly_confidence := Some 0.80,
             lstm_reconstruction_threshold := Some 0.050, vibration_threshold := Some 0.3\<rparr>)"
    by (simp add: EQUIPMENT_THRESHOLDS_def)
  from absent get_equipment_thresholds_never_fails [of "''cryostat''"]
  have a: "get_equipment_thresholds ''cryostat'' = Inr fridge_thresholds" by blast
  from present get_equipment_thresholds_never_fails [of "''shaker''"]
  have b: "get_equipment_thresholds ''shaker'' =
     Inr (no_thresholds\<lparr>acoustic_anomaly_confidence := Some 0.80,
            lstm_reconstruction_threshold := Some 0.050, vibration_threshold := Some 0.3\<rparr>)"
    by blast
  show ?thesis using absent present a b by blast
qed

lemma check_required_False_iff:
  "fst (check_required sc rs) = False \<longleftrightarrow>
     (\<exists>r \<in> set rs. config_key_of r \<notin> fst ` set sc \<or>
        (\<exists>c. map_of sc (config_key_of r) = Some c \<and> (enabled c = Some False \<or> enabled c = None)))"
proof (induction rs)
  case Nil
  show ?case by simp
next
  case (Cons r rs)
  show ?case
  proof (cases "map_of sc (config_key_of r)")
    case None
    moreover from None have "config_key_of r \<notin> fst ` set sc"
      by (simp add: map_of_eq_None_iff)
    ultimately show ?thesis by (simp add: Let_def del: map_of_eq_None_iff)
  next
    case (Some c)
    then have "config_key_of r \<in> fst ` set sc"
      by (metis map_of_eq_None_iff option.distinct(1))
    with Some Cons show ?thesis
      by (auto simp add: enabled_flag_def Let_def split: option.splits)
  qed
qed

lemma check_required_True:
  "fst (check_required sc rs) \<Longrightarrow> check_required sc rs = (True, ''Configuration valid'')"
  by (induction rs) (auto simp add: Let_def split: option.splits if_splits)

lemma check_required_reason:
  "\<not> fst (check_required sc rs) \<Longrightarrow>
     \<exists>r \<in> set rs. snd (check_required sc rs) =
        ''Required sensor missing: '' @ r @ '' (config key: '' @ config_key_of r @ '')''"
  by (induction rs) (auto simp add: Let_def split: option.splits if_splits)

lemma fridge_type_def:
  "map_of EQUIPMENT_TYPES ''fridge'' = Some \<lparr>type_name = ''Refrigerator'',
       sensors_required = [''thermal'', ''acoustic''],
       sensors_optional = [''gas'', ''temperature''],
       models = [''thermal_cnn'', ''acoustic_cnn'', ''lstm_ae''],
       description = ''Standard lab refrigerator for sample storage''\<rparr>"
  by (simp add: EQUIPMENT_TYPES_def)

text \<open>
  Claim C10. For an equipment whose type is in \<open>EQUIPMENT_TYPES\<close>,
  \<open>validate_equipment_config\<close> returns a pair (it has no failing path) whose first
  component is \<open>False\<close> exactly when some required sensor's wiring key is not a key of the
  sensors config, or is a key whose entry has \<open>"enabled"\<close> false or absent. A valid
  result is \<open>(True, "Configuration valid")\<close>; an invalid one carries the
  "Required sensor missing" reason for one of the required sensors.
\<close>

theorem validate_equipment_config_invalid_iff:
  assumes "map_of EQUIPMENT_TYPES (eq_type e) = Some type_def"
  shows "(fst (validate_equipment_config e) = False \<longleftrightarrow>
            (\<exists>r \<in> set (sensors_required type_def).
               config_key_of r \<notin> fst ` set (sensors_config_of e) \<or>
               (\<exists>c. map_of (sensors_config_of e) (config_key_of r) = Some c \<and>
                    (enabled c = Some False \<or> enabled c = None))))
       \<and> (fst (validate_equipment_config e) \<longrightarrow>
            validate_equipment_config e = (True, ''Configuration valid''))
       \<and> (\<not> fst (validate_equipment_config e) \<longrightarrow>
            (\<exists>r \<in> set (sensors_required type_def).
               snd (validate_equipment_config e) =
                 ''Required sensor missing: '' @ r @ '' (config key: '' @ config_key_of r @ '')''))"
proof -
  have v: "validate_equipment_config e =
             check_required (sensors_config_of e) (sensors_required type_def)"
    using assms by (simp add: validate_equipment_config_def)
  show ?thesis
    unfolding v
    using check_required_False_iff [of "sensors_config_of e" "sensors_required type_def"]
          check_required_True [of "sensors_config_of e" "sensors_required type_def"]
          check_required_reason [of "sensors_config_of e" "sensors_required type_def"]
    by blast
qed

theorem validate_equipment_config_invalid_iff_witness:
  "map_of EQUIPMENT_TYPES (eq_type fridge_mic_off) \<noteq> None \<and>
   validate_equipment_config fridge_mic_off =
     (False, ''Required sensor missing: acoustic (config key: microphone)'') \<and>
   map_of (sensors_config_of fridge_mic_off) (config_key_of ''acoustic'') =
     Some \<lparr>enabled = Some False\<rparr> \<and>
   validate_equipment_config fridge_lab_a_01 = (True, ''Configuration valid'')"
proof -
  have h1: "map_of EQUIPMENT_TYPES (eq_type fridge_mic_off) = Some \<lparr>type_name = ''Refrigerator'',
       sensors_required = [''thermal'', ''acoustic''],
       sensors_optional = [''gas'', ''temperature''],
       models = [''thermal_cnn'', ''acoustic_cnn'', ''lstm_ae''],
       description = ''Standard lab refrigerator for sample storage''\<rparr>"
    by (simp add: fridge_mic_off_def fridge_type_def)
  have h2: "map_of EQUIPMENT_TYPES (eq_type fridge_lab_a_01) = Some \<lparr>type_name = ''Refrigerator'',
       sensors_required = [''thermal'', ''acoustic''],
       sensors_optional = [''gas'', ''temperature''],
       models = [''thermal_cnn'', ''acoustic_cnn'', ''lstm_ae''],
       description = ''Standard lab refrigerator for sample storage''\<rparr>"
    by (simp add: fridge_lab_a_01_def fridge_type_def)
  have k: "config_key_of ''acoustic'' = ''microphone''"
          "config_key_of ''thermal'' = ''thermal_camera''"
    by (simp_all add: config_key_of_def sensor_name_mapping_def)
  have m: "map_of (sensors_config_of fridge_mic_off) ''microphone'' = Some \<lparr>enabled = Some False\<rparr>"
          "map_of (sensors_config_of fridge_mic_off) ''thermal_camera'' = Some \<lparr>enabled = Some True\<rparr>"
    by (simp_all add: sensors_config_of_def fridge_mic_off_def)
  have m2: "map_of (sensors_config_of fridge_lab_a_01) ''microphone'' = Some \<lparr>enabled = Some True\<rparr>"
           "map_of (sensors_config_of fridge_lab_a_01) ''thermal_camera'' = Some \<lparr>enabled = Some True\<rparr>"
    by (simp_all add: sensors_config_of_def fridge_lab_a_01_def)
  have m3: "''microphone'' \<in> fst ` set (sensors_config_of fridge_lab_a_01)"
           "''thermal_camera'' \<in> fst ` set (sensors_config_of fridge_lab_a_01)"
    by (simp_all add: sensors_config_of_def fridge_lab_a_01_def)
  have bad: "\<not> fst (validate_equipment_config fridge_mic_off)"
    using validate_equipment_config_invalid_iff [OF h1] k m by auto
  have good: "fst (validate_equipment_config fridge_lab_a_01)"
    using validate_equipment_config_invalid_iff [OF h2] k m2 m3 by auto
  have "snd (validate_equipment_config fridge_mic_off) =
          ''Required sensor missing: acoustic (config key: microphone)''"
    by (simp add: validate_equipment_config_def h1 k m enabled_flag_def)
  with bad have r1: "validate_equipment_config fridge_mic_off =
     (False, ''Required sensor missing: acoustic (config key: microphone)'')"
    by (metis prod.collapse)
  from good validate_equipment_config_invalid_iff [OF h2]
  have r2: "validate_equipment_config fridge_lab_a_01 = (True, ''Configuration valid'')"
    by blast
  show ?thesis using h1 r1 r2 k m by simp
qed

section \<open>The LSTM buffer is a sliding window\<close>


lemma newest_short: "length xs \<le> n \<Longrightarrow> newest n xs = xs"
  by (simp add: newest_def)

lemma length_newest: "length (newest n xs) = min n (length xs)"
  by (simp add: newest_def)

lemma newest_snoc: "newest n (newest n xs @ [y]) = newest n (xs @ [y])"
proof (cases "length xs \<le> n")
  case True
  then show ?thesis by (simp add: newest_short)
next
  case False
  then have "Suc (length xs - n) = Suc (length xs) - n" by simp
  with False show ?thesis by (simp add: newest_def)
qed

lemma newest_append: "newest n (newest n xs @ ys) = newest n (xs @ ys)"
proof (induction ys rule: rev_induct)
  case Nil
  show ?case by (simp add: newest_short length_newest)
next
  case (snoc y ys)
  have "newest n (newest n xs @ ys @ [y]) = newest n (newest n (newest n xs @ ys) @ [y])"
    using newest_snoc [of n "newest n xs @ ys" y] by simp
  also have "\<dots> = newest n (newest n (xs @ ys) @ [y])" by (simp add: snoc)
  also have "\<dots> = newest n (xs @ ys @ [y])" using newest_snoc [of n "xs @ ys" y] by simp
  finally show ?case by simp
qed

lemma keep_is_newest:
  assumes "length b \<le> 50"
  shows "(if length (b @ [fv]) > 50 then tl (b @ [fv]) else b @ [fv]) = newest 50 (b @ [fv])"
proof (cases "length b = 50")
  case True
  then have n: "length (b @ [fv]) - 50 = Suc 0" by simp
  have "newest 50 (b @ [fv]) = tl (b @ [fv])"
    unfolding newest_def n by (simp only: drop_Suc drop_0)
  with True show ?thesis by simp
next
  case False
  with assms have "length (b @ [fv]) \<le> 50" by simp
  then show ?thesis using newest_short [of "b @ [fv]" 50] by simp
qed

lemma buffer_of_upd_same: "buffer_of (m(e \<mapsto> k)) e = k"
  by (simp add: buffer_of_def)

lemma buffer_of_upd_other: "i \<noteq> e \<Longrightarrow> buffer_of (m(i \<mapsto> k)) e = buffer_of m e"
  by (simp add: buffer_of_def)

lemma buffer_of_created:
  "buffer_of (if bufs i = None then bufs(i \<mapsto> []) else bufs) e = buffer_of bufs e"
  by (auto simp add: buffer_of_def)

lemma step_Inl: "lstm_buffer_step bufs i (Inl err) =
    ((if bufs i = None then bufs(i \<mapsto> []) else bufs), None)"
  by (simp add: lstm_buffer_step_def Let_def)

lemma step_Inr:
  assumes "length (buffer_of bufs i) \<le> 50"
  shows "lstm_buffer_step bufs i (Inr fv) =
     ((if bufs i = None then bufs(i \<mapsto> []) else bufs)(i \<mapsto> newest 50 (buffer_of bufs i @ [fv])),
      if length (buffer_of bufs i) \<ge> 49 then Some (newest 50 (buffer_of bufs i @ [fv])) else None)"
proof -
  have len: "length (newest 50 (buffer_of bufs i @ [fv])) \<ge> 50 \<longleftrightarrow> length (buffer_of bufs i) \<ge> 49"
    by (auto simp add: length_newest)
  show ?thesis
    unfolding lstm_buffer_step_def Let_def buffer_of_created keep_is_newest [OF assms]
    using len by simp
qed

lemma step_buffer:
  assumes "length (buffer_of bufs i) \<le> 50"
  shows "buffer_of (fst (lstm_buffer_step bufs i built)) e =
           (if i = e then (case built of Inl err \<Rightarrow> buffer_of bufs e
                                       | Inr fv \<Rightarrow> newest 50 (buffer_of bufs e @ [fv]))
            else buffer_of bufs e)"
proof (cases built)
  case (Inl err)
  then show ?thesis by (simp add: step_Inl buffer_of_created)
next
  case (Inr fv)
  then show ?thesis
    by (simp add: step_Inr [OF assms] buffer_of_upd_same buffer_of_upd_other buffer_of_created)
qed

lemma step_keeps_bound:
  assumes "\<forall>e. length (buffer_of bufs e) \<le> 50"
  shows "\<forall>e. length (buffer_of (fst (lstm_buffer_step bufs i built)) e) \<le> 50"
proof
  fix e
  have le: "length (buffer_of bufs i) \<le> 50" using assms by simp
  show "length (buffer_of (fst (lstm_buffer_step bufs i built)) e) \<le> 50"
    using assms step_buffer [OF le, of built e]
    by (auto simp add: length_newest split: sum.splits)
qed

lemma pushed_for_Cons:
  "pushed_for e ((i, built) # rest) =
     (if i = e then (case built of Inl err \<Rightarrow> [] | Inr fv \<Rightarrow> [fv]) else []) @ pushed_for e rest"
  by (cases built) auto

lemma run_Cons:
  "lstm_buffer_run bufs ((i, built) # ps) =
     (fst (lstm_buffer_run (fst (lstm_buffer_step bufs i built)) ps),
      snd (lstm_buffer_step bufs i built) # snd (lstm_buffer_run (fst (lstm_buffer_step bufs i built)) ps))"
  by (simp split: prod.splits)

lemma run_buffer:
  assumes "\<forall>e. length (buffer_of bufs e) \<le> 50"
  shows "buffer_of (fst (lstm_buffer_run bufs ps)) e = newest 50 (buffer_of bufs e @ pushed_for e ps)"
  using assms
proof (induction ps arbitrary: bufs)
  case Nil
  then show ?case by (simp add: newest_short)
next
  case (Cons p ps)
  obtain i built where p: "p = (i, built)" by (cases p)
  let ?b1 = "fst (lstm_buffer_step bufs i built)"
  have bound1: "\<forall>e. length (buffer_of ?b1 e) \<le> 50"
    using step_keeps_bound [OF Cons.prems] .
  have le: "length (buffer_of bufs i) \<le> 50" using Cons.prems by simp
  have "buffer_of (fst (lstm_buffer_run bufs (p # ps))) e =
          newest 50 (buffer_of ?b1 e @ pushed_for e ps)"
    unfolding p run_Cons fst_conv using Cons.IH [OF bound1] .
  also have "\<dots> = newest 50 (buffer_of bufs e @ pushed_for e (p # ps))"
  proof (cases "i = e")
    case False
    then show ?thesis unfolding p pushed_for_Cons using step_buffer [OF le, of built e] by simp
  next
    case True
    show ?thesis
    proof (cases built)
      case (Inl err)
      then show ?thesis unfolding p pushed_for_Cons using True step_buffer [OF le, of built e] by simp
    next
      case (Inr fv)
      then have "buffer_of ?b1 e = newest 50 (buffer_of bufs e @ [fv])"
        using True step_buffer [OF le, of built e] by simp
      then show ?thesis
        unfolding p pushed_for_Cons
        using True Inr newest_append [of 50 "buffer_of bufs e @ [fv]" "pushed_for e ps"] by simp
    qed
  qed
  finally show ?case .
qed

lemma run_submitted:
  assumes "\<forall>e. length (buffer_of bufs e) \<le> 50"
  shows "Some w \<in> set (snd (lstm_buffer_run bufs ps)) \<Longrightarrow> length w = 50"
  using assms
proof (induction ps arbitrary: bufs)
  case Nil
  then show ?case by simp
next
  case (Cons p ps)
  obtain i built where p: "p = (i, built)" by (cases p)
  let ?b1 = "fst (lstm_buffer_step bufs i built)"
  have bound1: "\<forall>e. length (buffer_of ?b1 e) \<le> 50"
    using step_keeps_bound [OF Cons.prems(2)] .
  have le: "length (buffer_of bufs i) \<le> 50" using Cons.prems(2) by simp
  from Cons.prems(1)
  consider "Some w = snd (lstm_buffer_step bufs i built)" | "Some w \<in> set (snd (lstm_buffer_run ?b1 ps))"
    unfolding p run_Cons by auto
  then show ?case
  proof cases
    case 1
    then show ?thesis
      by (cases built) (auto simp add: step_Inl step_Inr [OF le] length_newest split: if_splits)
  next
    case 2
    then show ?thesis using Cons.IH [OF _ bound1] by simp
  qed
qed

lemma pushed_for_map:
  "pushed_for e (map (\<lambda>k. (e, Inr (f k))) ks) = map f ks"
  by (induction ks) simp_all

text \<open>
  Claim C7. Starting from the empty buffer dict, after any sequence of cycles (for any
  mix of equipment ids, with or without a builder failure) the buffer of every equipment
  id holds at most 50 vectors and is exactly the newest 50 of the vectors pushed for
  that id, in push order. Every buffer handed to the LSTM during the run has length 50.
  A further push onto a full buffer drops exactly its oldest element, appends the new
  one and submits the result; a push that leaves the buffer short of 50 submits nothing.
\<close>

theorem lstm_buffer_sliding_window:
  "length (buffer_of (fst (lstm_buffer_run Map.empty ps)) e) \<le> 50 \<and>
   buffer_of (fst (lstm_buffer_run Map.empty ps)) e =
     drop (length (pushed_for e ps) - 50) (pushed_for e ps) \<and>
   (\<forall>w. Some w \<in> set (snd (lstm_buffer_run Map.empty ps)) \<longrightarrow> length w = 50) \<and>
   (\<forall>fv. length (buffer_of (fst (lstm_buffer_run Map.empty ps)) e) = 50 \<longrightarrow>
      lstm_buffer_step (fst (lstm_buffer_run Map.empty ps)) e (Inr fv) =
        ((fst (lstm_buffer_run Map.empty ps))
            (e \<mapsto> tl (buffer_of (fst (lstm_buffer_run Map.empty ps)) e) @ [fv]),
         Some (tl (buffer_of (fst (lstm_buffer_run Map.empty ps)) e) @ [fv]))) \<and>
   (\<forall>fv. length (buffer_of (fst (lstm_buffer_run Map.empty ps)) e) < 49 \<longrightarrow>
      snd (lstm_buffer_step (fst (lstm_buffer_run Map.empty ps)) e (Inr fv)) = None)"
proof -
  let ?final = "fst (lstm_buffer_run Map.empty ps)"
  have init: "\<forall>e. length (buffer_of Map.empty e) \<le> 50"
    by (simp add: buffer_of_def)
  have buf: "buffer_of ?final e = newest 50 (pushed_for e ps)"
    using run_buffer [OF init, of ps e] by (simp add: buffer_of_def)
  have bound: "length (buffer_of ?final e) \<le> 50"
    unfolding buf by (simp add: length_newest)
  have sub: "\<forall>w. Some w \<in> set (snd (lstm_buffer_run Map.empty ps)) \<longrightarrow> length w = 50"
    using run_submitted [OF init] by blast
  have evict: "lstm_buffer_step ?final e (Inr fv) =
        (?final(e \<mapsto> tl (buffer_of ?final e) @ [fv]), Some (tl (buffer_of ?final e) @ [fv]))"
    if full: "length (buffer_of ?final e) = 50" for fv
  proof -
    from full have ne: "?final e \<noteq> None"
      by (cases "?final e") (simp_all add: buffer_of_def)
    from full have "newest 50 (buffer_of ?final e @ [fv]) = tl (buffer_of ?final e @ [fv])"
      using keep_is_newest [OF bound, of fv] by simp
    also from full have "\<dots> = tl (buffer_of ?final e) @ [fv]"
      by (cases "buffer_of ?final e") simp_all
    finally show ?thesis using full ne by (simp add: step_Inr [OF bound])
  qed
  have partial: "snd (lstm_buffer_step ?final e (Inr fv)) = None"
    if "length (buffer_of ?final e) < 49" for fv
    using that by (simp add: step_Inr [OF bound])
  show ?thesis
    using bound buf sub evict partial unfolding newest_def by blast
qed

theorem lstm_buffer_sliding_window_witness:
  "buffer_of (fst (lstm_buffer_run Map.empty
       (map (\<lambda>k. (''fridge_lab_a_01'', Inr [Fl (real k)])) [0..<51]))) ''fridge_lab_a_01''
     = map (\<lambda>k. [Fl (real k)]) [1..<51] \<and>
   Some (map (\<lambda>k. [Fl (real k)]) [1..<51]) \<in>
     set (snd (lstm_buffer_run Map.empty
       (map (\<lambda>k. (''fridge_lab_a_01'', Inr [Fl (real k)])) [0..<51]))) \<and>
   length (map (\<lambda>k. [Fl (real k)]) [1..<51]) = 50 \<and>
   snd (lstm_buffer_step (fst (lstm_buffer_run Map.empty
       (map (\<lambda>k. (''fridge_lab_a_01'', Inr [Fl (real k)])) [0..<51])))
       ''fridge_lab_a_01'' (Inr [Fl 51]))
     = Some (tl (map (\<lambda>k. [Fl (real k)]) [1..<51]) @ [[Fl 51]]) \<and>
   snd (lstm_buffer_step (fst (lstm_buffer_run Map.empty [])) ''fridge_lab_a_01'' (Inr [Fl 0]))
     = None"
proof -
  let ?ps = "map (\<lambda>k. (''fridge_lab_a_01'', Inr [Fl (real k)])) [0..<51]"
  have "buffer_of (fst (lstm_buffer_run Map.empty ?ps)) ''fridge_lab_a_01'' =
          drop (length (pushed_for ''fridge_lab_a_01'' ?ps) - 50) (pushed_for ''fridge_lab_a_01'' ?ps)"
    using lstm_buffer_sliding_window [of ?ps "''fridge_lab_a_01''"] by blast
  also have "pushed_for ''fridge_lab_a_01'' ?ps = map (\<lambda>k. [Fl (real k)]) [0..<51]"
    by (rule pushed_for_map)
  also have "drop (length (map (\<lambda>k. [Fl (real k)]) [0..<51]) - 50) (map (\<lambda>k. [Fl (real k)]) [0..<51])
       = map (\<lambda>k. [Fl (real k)]) [1..<51]"
    by (simp add: drop_map)
  finally have a: "buffer_of (fst (lstm_buffer_run Map.empty ?ps)) ''fridge_lab_a_01''
     = map (\<lambda>k. [Fl (real k)]) [1..<51]" .
  have "snd (lstm_buffer_run Map.empty ?ps) ! 50 = Some (map (\<lambda>k. [Fl (real k)]) [1..<51])"
    by code_simp
  moreover have "length (snd (lstm_buffer_run Map.empty ?ps)) = 51"
    by code_simp
  ultimately have b: "Some (map (\<lambda>k. [Fl (real k)]) [1..<51]) \<in> set (snd (lstm_buffer_run Map.empty ?ps))"
    by (metis lessI nth_mem numeral_eq_Suc pred_numeral_simps(3) less_Suc_eq)
  have full: "length (buffer_of (fst (lstm_buffer_run Map.empty ?ps)) ''fridge_lab_a_01'') = 50"
    unfolding a by simp
  have c: "snd (lstm_buffer_step (fst (lstm_buffer_run Map.empty ?ps)) ''fridge_lab_a_01''
                  (Inr [Fl 51]))
             = Some (tl (map (\<lambda>k. [Fl (real k)]) [1..<51]) @ [[Fl 51]])"
    using lstm_buffer_sliding_window [of ?ps "''fridge_lab_a_01''"] full
    unfolding a by simp
  have short: "length (buffer_of (fst (lstm_buffer_run Map.empty [])) ''fridge_lab_a_01'') < 49"
    by (simp add: buffer_of_def)
  have d: "snd (lstm_buffer_step (fst (lstm_buffer_run Map.empty [])) ''fridge_lab_a_01''
                  (Inr [Fl 0])) = None"
    using lstm_buffer_sliding_window [of "[]" "''fridge_lab_a_01''"] short by blast
  show ?thesis using a b c d by simp
qed

section \<open>The feature vector\<close>

lemma scalar_feature_absent:
  "key \<notin> fst ` set s \<Longrightarrow> scalar_feature s key = Inr NaN"
  by (simp add: scalar_feature_def map_of_eq_None_iff [symmetric] del: map_of_eq_None_iff)

lemma scalar_feature_scalar:
  "distinct (map fst s) \<Longrightarrow> (key, Scalar r) \<in> set s \<Longrightarrow> scalar_feature s key = Inr (Fl r)"
  by (simp add: scalar_feature_def)

lemma scalar_feature_returns:
  assumes "\<forall>v. map_of s key = Some v \<longrightarrow> (\<exists>r. py_float v = Inr r)"
  shows "\<exists>f. scalar_feature s key = Inr f"
  using assms by (auto simp add: scalar_feature_def split: option.splits sum.splits)

lemma acoustic_rms_absent:
  "''audio'' \<notin> fst ` set s \<Longrightarrow> acoustic_rms_feature s = NaN"
  by (simp add: acoustic_rms_feature_def map_of_eq_None_iff [symmetric] del: map_of_eq_None_iff)

lemma acoustic_rms_array:
  "distinct (map fst s) \<Longrightarrow> (''audio'', NdArray xs) \<in> set s \<Longrightarrow> xs \<noteq> [] \<Longrightarrow>
     acoustic_rms_feature s = Fl (sqrt (sum_list (map (\<lambda>x. x ^ 2) xs) / real (length xs)))"
  by (simp add: acoustic_rms_feature_def np_mean_def np_sqrt_def)

lemma thermal_mean_absent:
  "''thermal'' \<notin> fst ` set s \<Longrightarrow> thermal_mean_feature s = NaN"
  by (simp add: thermal_mean_feature_def map_of_eq_None_iff [symmetric] del: map_of_eq_None_iff)

lemma thermal_mean_array:
  "distinct (map fst s) \<Longrightarrow> (''thermal'', NdArray xs) \<in> set s \<Longrightarrow> xs \<noteq> [] \<Longrightarrow>
     thermal_mean_feature s = Fl (sum_list xs / real (length xs))"
  by (simp add: thermal_mean_feature_def np_mean_def)

lemma build_depends_on_map_of:
  assumes "map_of s1 = map_of s2"
  shows "build_lstm_feature_vector f32 \<lparr>rd_sensors = Some s1\<rparr> ty =
         build_lstm_feature_vector f32 \<lparr>rd_sensors = Some s2\<rparr> ty'"
proof -
  have a: "scalar_feature s1 key = scalar_feature s2 key" for key
    by (simp add: scalar_feature_def assms)
  have b: "acoustic_rms_feature s1 = acoustic_rms_feature s2"
    by (simp add: acoustic_rms_feature_def assms)
  have c: "thermal_mean_feature s1 = thermal_mean_feature s2"
    by (simp add: thermal_mean_feature_def assms)
  have s: "sensors_of \<lparr>rd_sensors = Some s\<rparr> = s" for s
    by (simp add: sensors_of_def)
  show ?thesis
    unfolding build_lstm_feature_vector_def s Let_def a b c by (rule refl)
qed

lemma build_shape:
  "build_lstm_feature_vector f32 rd ty = Inr v \<Longrightarrow>
     v = map (cast_float32 f32)
           [projr (scalar_feature (sensors_of rd) ''temperature''),
            projr (scalar_feature (sensors_of rd) ''gas''),
            projr (scalar_feature (sensors_of rd) ''vibration''),
            projr (scalar_feature (sensors_of rd) ''current''),
            acoustic_rms_feature (sensors_of rd), thermal_mean_feature (sensors_of rd)]"
  by (auto simp add: build_lstm_feature_vector_def Let_def split: sum.splits)

lemma build_returns:
  assumes "\<forall>key \<in> {''temperature'', ''gas'', ''vibration'', ''current''}.
             \<forall>v. map_of (sensors_of rd) key = Some v \<longrightarrow> (\<exists>r. py_float v = Inr r)"
  shows "\<exists>v. build_lstm_feature_vector f32 rd ty = Inr v"
proof -
  obtain f0 where f0: "scalar_feature (sensors_of rd) ''temperature'' = Inr f0"
    using scalar_feature_returns [of "sensors_of rd" "''temperature''"] assms by auto
  obtain f1 where f1: "scalar_feature (sensors_of rd) ''gas'' = Inr f1"
    using scalar_feature_returns [of "sensors_of rd" "''gas''"] assms by auto
  obtain f2 where f2: "scalar_feature (sensors_of rd) ''vibration'' = Inr f2"
    using scalar_feature_returns [of "sensors_of rd" "''vibration''"] assms by auto
  obtain f3 where f3: "scalar_feature (sensors_of rd) ''current'' = Inr f3"
    using scalar_feature_returns [of "sensors_of rd" "''current''"] assms by auto
  show ?thesis by (simp add: build_lstm_feature_vector_def Let_def f0 f1 f2 f3)
qed

lemma build_length:
  "build_lstm_feature_vector f32 rd ty = Inr v \<Longrightarrow> length v = 6"
  by (auto simp add: build_lstm_feature_vector_def Let_def split: sum.splits)

lemma cast_float32_simps:
  "cast_float32 f32 NaN = NaN" "cast_float32 f32 (Fl r) = Fl (f32 r)"
  by (simp_all add: cast_float32_def)

lemma cast_scalar_absent:
  "key \<notin> fst ` set s \<Longrightarrow> cast_float32 f32 (projr (scalar_feature s key)) = NaN"
  by (simp add: scalar_feature_absent cast_float32_def)

lemma cast_scalar_present:
  "distinct (map fst s) \<Longrightarrow> (key, Scalar r) \<in> set s \<Longrightarrow>
     cast_float32 f32 (projr (scalar_feature s key)) = Fl (f32 r)"
  by (simp add: scalar_feature_scalar cast_float32_def)

text \<open>
  Claim C6. Two sensor dicts with the same key-value pairs (each key once) in any
  insertion order give the same result of \<open>build_lstm_feature_vector\<close>, whatever the
  float32 rounding and the equipment type. Every vector the builder returns has
  length 6. When the scalar sensors that are present hold values \<open>float()\<close> accepts,
  the builder returns \<open>[temperature, gas, vibration, current, acoustic_rms,
  thermal_mean]\<close> in this order: NaN at the position of every absent key, the rounded
  reading at the position of a scalar reading, the rounded root mean square of the
  audio array and the rounded mean of the thermal array.
\<close>

theorem build_lstm_feature_vector_fixed_order:
  assumes d1: "distinct (map fst s1)" and d2: "distinct (map fst s2)" and same: "set s1 = set s2"
  shows "build_lstm_feature_vector f32 \<lparr>rd_sensors = Some s1\<rparr> ty =
           build_lstm_feature_vector f32 \<lparr>rd_sensors = Some s2\<rparr> ty \<and>
         (\<forall>v. build_lstm_feature_vector f32 \<lparr>rd_sensors = Some s1\<rparr> ty = Inr v \<longrightarrow> length v = 6) \<and>
         ((\<forall>key \<in> {''temperature'', ''gas'', ''vibration'', ''current''}.
              \<forall>v. (key, v) \<in> set s1 \<longrightarrow> (\<exists>r. py_float v = Inr r)) \<longrightarrow>
          (\<exists>f0 f1 f2 f3 f4 f5.
             build_lstm_feature_vector f32 \<lparr>rd_sensors = Some s1\<rparr> ty = Inr [f0, f1, f2, f3, f4, f5] \<and>
             (''temperature'' \<notin> fst ` set s1 \<longrightarrow> f0 = NaN) \<and>
             (''gas'' \<notin> fst ` set s1 \<longrightarrow> f1 = NaN) \<and>
             (''vibration'' \<notin> fst ` set s1 \<longrightarrow> f2 = NaN) \<and>
             (''current'' \<notin> fst ` set s1 \<longrightarrow> f3 = NaN) \<and>
             (''audio'' \<notin> fst ` set s1 \<longrightarrow> f4 = NaN) \<and>
             (''thermal'' \<notin> fst ` set s1 \<longrightarrow> f5 = NaN) \<and>
             (\<forall>r. (''temperature'', Scalar r) \<in> set s1 \<longrightarrow> f0 = Fl (f32 r)) \<and>
             (\<forall>r. (''gas'', Scalar r) \<in> set s1 \<longrightarrow> f1 = Fl (f32 r)) \<and>
             (\<forall>r. (''vibration'', Scalar r) \<in> set s1 \<longrightarrow> f2 = Fl (f32 r)) \<and>
             (\<forall>r. (''current'', Scalar r) \<in> set s1 \<longrightarrow> f3 = Fl (f32 r)) \<and>
             (\<forall>xs. (''audio'', NdArray xs) \<in> set s1 \<and> xs \<noteq> [] \<longrightarrow>
                 f4 = Fl (f32 (sqrt (sum_list (map (\<lambda>x. x ^ 2) xs) / real (length xs))))) \<and>
             (\<forall>xs. (''thermal'', NdArray xs) \<in> set s1 \<and> xs \<noteq> [] \<longrightarrow>
                 f5 = Fl (f32 (sum_list xs / real (length xs))))))"
proof -
  let ?rd = "\<lparr>rd_sensors = Some s1\<rparr>"
  have s: "sensors_of ?rd = s1" by (simp add: sensors_of_def)
  have m: "map_of s1 = map_of s2"
    using map_of_inject_set [OF d1 d2] same by simp
  have eq: "build_lstm_feature_vector f32 ?rd ty =
            build_lstm_feature_vector f32 \<lparr>rd_sensors = Some s2\<rparr> ty"
    by (rule build_depends_on_map_of [OF m])
  have len: "\<forall>v. build_lstm_feature_vector f32 ?rd ty = Inr v \<longrightarrow> length v = 6"
    using build_length by blast
  have pos: "\<exists>f0 f1 f2 f3 f4 f5.
             build_lstm_feature_vector f32 ?rd ty = Inr [f0, f1, f2, f3, f4, f5] \<and>
             (''temperature'' \<notin> fst ` set s1 \<longrightarrow> f0 = NaN) \<and>
             (''gas'' \<notin> fst ` set s1 \<longrightarrow> f1 = NaN) \<and>
             (''vibration'' \<notin> fst ` set s1 \<longrightarrow> f2 = NaN) \<and>
             (''current'' \<notin> fst ` set s1 \<longrightarrow> f3 = NaN) \<and>
             (''audio'' \<notin> fst ` set s1 \<longrightarrow> f4 = NaN) \<and>
             (''thermal'' \<notin> fst ` set s1 \<longrightarrow> f5 = NaN) \<and>
             (\<forall>r. (''temperature'', Scalar r) \<in> set s1 \<longrightarrow> f0 = Fl (f32 r)) \<and>
             (\<forall>r. (''gas'', Scalar r) \<in> set s1 \<longrightarrow> f1 = Fl (f32 r)) \<and>
             (\<forall>r. (''vibration'', Scalar r) \<in> set s1 \<longrightarrow> f2 = Fl (f32 r)) \<and>
             (\<forall>r. (''current'', Scalar r) \<in> set s1 \<longrightarrow> f3 = Fl (f32 r)) \<and>
             (\<forall>xs. (''audio'', NdArray xs) \<in> set s1 \<and> xs \<noteq> [] \<longrightarrow>
                 f4 = Fl (f32 (sqrt (sum_list (map (\<lambda>x. x ^ 2) xs) / real (length xs))))) \<and>
             (\<forall>xs. (''thermal'', NdArray xs) \<in> set s1 \<and> xs \<noteq> [] \<longrightarrow>
                 f5 = Fl (f32 (sum_list xs / real (length xs))))"
    if typed: "\<forall>key \<in> {''temperature'', ''gas'', ''vibration'', ''current''}.
              \<forall>v. (key, v) \<in> set s1 \<longrightarrow> (\<exists>r. py_float v = Inr r)"
  proof -
    have typed': "\<forall>key \<in> {''temperature'', ''gas'', ''vibration'', ''current''}.
             \<forall>v. map_of (sensors_of ?rd) key = Some v \<longrightarrow> (\<exists>r. py_float v = Inr r)"
      unfolding s using typed by (blast dest: map_of_SomeD)
    obtain v where v: "build_lstm_feature_vector f32 ?rd ty = Inr v"
      using build_returns [OF typed'] by blast
    note shape = build_shape [OF v, unfolded s]
    show ?thesis
      unfolding v shape
      using acoustic_rms_array [OF d1] thermal_mean_array [OF d1]
      by (auto simp add: cast_scalar_absent cast_scalar_present [OF d1]
            acoustic_rms_absent thermal_mean_absent cast_float32_simps)
  qed
  show ?thesis using eq len pos by blast
qed

theorem build_lstm_feature_vector_fixed_order_witness:
  "distinct (map fst [(''temperature'', Scalar 5.0), (''gas'', Scalar 300),
                      (''vibration'', Scalar 0.2), (''current'', Scalar 2.5)]) \<and>
   distinct (map fst [(''current'', Scalar 2.5), (''gas'', Scalar 300),
                      (''temperature'', Scalar 5.0), (''vibration'', Scalar 0.2)]) \<and>
   set [(''temperature'', Scalar 5.0), (''gas'', Scalar 300),
        (''vibration'', Scalar 0.2), (''current'', Scalar 2.5)] =
   set [(''current'', Scalar 2.5), (''gas'', Scalar 300),
        (''temperature'', Scalar 5.0), (''vibration'', Scalar 0.2)] \<and>
   list_all (\<lambda>(key, v). \<not> isl (py_float v))
     [(''temperature'', Scalar 5.0), (''gas'', Scalar 300),
      (''vibration'', Scalar 0.2), (''current'', Scalar 2.5)] \<and>
   build_lstm_feature_vector (\<lambda>x. x)
      \<lparr>rd_sensors = Some [(''temperature'', Scalar 5.0), (''gas'', Scalar 300),
                          (''vibration'', Scalar 0.2), (''current'', Scalar 2.5)]\<rparr> ''fridge''
     = Inr [Fl 5.0, Fl 300, Fl 0.2, Fl 2.5, NaN, NaN] \<and>
   build_lstm_feature_vector (\<lambda>x. x)
      \<lparr>rd_sensors = Some [(''current'', Scalar 2.5), (''gas'', Scalar 300),
                          (''temperature'', Scalar 5.0), (''vibration'', Scalar 0.2)]\<rparr> ''fridge''
     = Inr [Fl 5.0, Fl 300, Fl 0.2, Fl 2.5, NaN, NaN]"
proof -
  let ?s1 = "[(''temperature'', Scalar 5.0), (''gas'', Scalar 300),
              (''vibration'', Scalar 0.2), (''current'', Scalar 2.5)]"
  let ?s2 = "[(''current'', Scalar 2.5), (''gas'', Scalar 300),
              (''temperature'', Scalar 5.0), (''vibration'', Scalar 0.2)]"
  have d1: "distinct (map fst ?s1)" by simp
  have d2: "distinct (map fst ?s2)" by simp
  have same: "set ?s1 = set ?s2" by auto
  have typed_list: "list_all (\<lambda>(key, v). \<not> isl (py_float v)) ?s1" by simp
  have typed: "\<forall>key \<in> {''temperature'', ''gas'', ''vibration'', ''current''}.
                 \<forall>v. (key, v) \<in> set ?s1 \<longrightarrow> (\<exists>r. py_float v = Inr r)"
    by (auto intro: exI [of _ "1 / 5"] exI [of _ "5 / 2"])
  have absent: "''audio'' \<notin> fst ` set ?s1" "''thermal'' \<notin> fst ` set ?s1" by simp_all
  have present: "(''temperature'', Scalar 5.0) \<in> set ?s1" "(''gas'', Scalar 300) \<in> set ?s1"
                "(''vibration'', Scalar 0.2) \<in> set ?s1" "(''current'', Scalar 2.5) \<in> set ?s1"
    by simp_all
  note fixed = build_lstm_feature_vector_fixed_order [OF d1 d2 same, of "\<lambda>x. x" "''fridge''"]
  from fixed typed obtain f0 f1 f2 f3 f4 f5 where
        b: "build_lstm_feature_vector (\<lambda>x. x) \<lparr>rd_sensors = Some ?s1\<rparr> ''fridge'' =
              Inr [f0, f1, f2, f3, f4, f5]"
    and n4: "''audio'' \<notin> fst ` set ?s1 \<longrightarrow> f4 = NaN"
    and n5: "''thermal'' \<notin> fst ` set ?s1 \<longrightarrow> f5 = NaN"
    and v0: "\<forall>r. (''temperature'', Scalar r) \<in> set ?s1 \<longrightarrow> f0 = Fl r"
    and v1: "\<forall>r. (''gas'', Scalar r) \<in> set ?s1 \<longrightarrow> f1 = Fl r"
    and v2: "\<forall>r. (''vibration'', Scalar r) \<in> set ?s1 \<longrightarrow> f2 = Fl r"
    and v3: "\<forall>r. (''current'', Scalar r) \<in> set ?s1 \<longrightarrow> f3 = Fl r"
    by blast
  have "f0 = Fl 5.0" "f1 = Fl 300" "f2 = Fl 0.2" "f3 = Fl 2.5" "f4 = NaN" "f5 = NaN"
    using n4 n5 v0 v1 v2 v3 absent present by blast+
  with b have one: "build_lstm_feature_vector (\<lambda>x. x) \<lparr>rd_sensors = Some ?s1\<rparr> ''fridge''
               = Inr [Fl 5.0, Fl 300, Fl 0.2, Fl 2.5, NaN, NaN]"
    by simp
  have two: "build_lstm_feature_vector (\<lambda>x. x) \<lparr>rd_sensors = Some ?s2\<rparr> ''fridge''
               = Inr [Fl 5.0, Fl 300, Fl 0.2, Fl 2.5, NaN, NaN]"
    using fixed one by simp
  show ?thesis using d1 d2 same typed_list one two by blast
qed

section \<open>Raw thresholds\<close>

lemma no_critical_elsewhere:
  "filter is_critical (gas_alerts cfg th s) = []"
  "filter is_critical (co2_alerts th s) = []"
  "filter is_critical (oxygen_alerts th s) = []"
  "filter is_critical (vibration_alerts th s) = []"
  "filter is_critical (current_alerts th s) = []"
  by (auto simp add: gas_alerts_def co2_alerts_def oxygen_alerts_def vibration_alerts_def
        current_alerts_def split: option.splits sum.splits)

lemma critical_temperature:
  assumes "map_of s ''temperature'' = Some v" "py_float v = Inr t"
      and "THERMAL_CRITICAL_THRESHOLD_C cfg = Some c" "t \<ge> c"
  shows "filter is_critical (temperature_alerts cfg th s) = [CriticalHighTemperature t c]"
  using assms by (auto simp add: temperature_alerts_def split: option.splits)

lemma critical_in_raw_alerts:
  assumes "map_of s ''temperature'' = Some v" "py_float v = Inr t"
      and "THERMAL_CRITICAL_THRESHOLD_C cfg = Some c" "t \<ge> c"
  shows "filter is_critical (raw_sensor_alerts cfg th s) = [CriticalHighTemperature t c]"
  unfolding raw_sensor_alerts_def filter_append
  by (simp add: no_critical_elsewhere critical_temperature [OF assms])

text \<open>
  Claim C4. For every equipment instance, of any type, whose cycle has a temperature
  reading \<open>t\<close> at or above the configured critical ceiling \<open>c\<close>,
  \<open>check_raw_sensor_thresholds\<close> sends the threshold alert and the alert list in it
  holds exactly one CRITICAL entry, the high-temperature one for \<open>t\<close> and \<open>c\<close>. The
  same holds for every threshold profile, so neither the equipment type nor its
  temperature range matters.
\<close>

theorem critical_temperature_failsafe:
  assumes "map_of (sensors_of rd) ''temperature'' = Some v" and "py_float v = Inr t"
      and "THERMAL_CRITICAL_THRESHOLD_C cfg = Some c" and "t \<ge> c"
  shows "\<exists>alerts.
           check_raw_sensor_thresholds cfg e rd =
             Inr (send_to_channels (''Sensor Threshold Alert: '' @ display_name_of e)
                    (SensorThresholdAlert (display_name_of e) (eq_id e) (location_of e)
                       (eq_type e) alerts)
                    (channels_of e)) \<and>
           filter is_critical alerts = [CriticalHighTemperature t c] \<and>
           (\<forall>th. filter is_critical (raw_sensor_alerts cfg th (sensors_of rd)) =
                    [CriticalHighTemperature t c])"
proof -
  obtain th where th: "get_equipment_thresholds (eq_type e) = Inr th"
    using get_equipment_thresholds_total by blast
  note crit = critical_in_raw_alerts [OF assms]
  have ne: "raw_sensor_alerts cfg th (sensors_of rd) \<noteq> []"
    using crit [of th] by auto
  have "check_raw_sensor_thresholds cfg e rd =
             Inr (send_to_channels (''Sensor Threshold Alert: '' @ display_name_of e)
                    (SensorThresholdAlert (display_name_of e) (eq_id e) (location_of e)
                       (eq_type e) (raw_sensor_alerts cfg th (sensors_of rd)))
                    (channels_of e))"
    using ne by (simp add: check_raw_sensor_thresholds_def th Let_def)
  with crit show ?thesis by blast
qed

lemma test_fridge_thresholds: "get_equipment_thresholds (eq_type test_fridge) = Inr fridge_thresholds"
  by (simp add: get_equipment_thresholds_def test_fridge_def fridge_in_table)

lemma fridge_80_alerts:
  "raw_sensor_alerts default_config fridge_thresholds [(''temperature'', Scalar 80)] =
     [TemperatureOutOfRange 80 (2, 8), CriticalHighTemperature 80 75]"
  by (simp add: raw_sensor_alerts_def temperature_alerts_def gas_alerts_def co2_alerts_def
        oxygen_alerts_def vibration_alerts_def current_alerts_def default_config_def
        fridge_thresholds_def no_thresholds_def)

theorem critical_temperature_failsafe_witness:
  "map_of (sensors_of \<lparr>rd_sensors = Some [(''temperature'', Scalar 80)]\<rparr>) ''temperature''
      = Some (Scalar 80) \<and>
   py_float (Scalar 80) = Inr 80 \<and>
   THERMAL_CRITICAL_THRESHOLD_C default_config = Some 75 \<and> (80::real) \<ge> 75 \<and>
   check_raw_sensor_thresholds default_config test_fridge
       \<lparr>rd_sensors = Some [(''temperature'', Scalar 80)]\<rparr> =
     Inr [Discord (SensorThresholdAlert ''Test Fridge'' ''test_fridge'' ''Unknown'' ''fridge''
            [TemperatureOutOfRange 80 (2, 8), CriticalHighTemperature 80 75])] \<and>
   filter is_critical [TemperatureOutOfRange 80 (2, 8), CriticalHighTemperature 80 75] =
     [CriticalHighTemperature 80 75] \<and>
   filter is_critical (raw_sensor_alerts default_config no_thresholds [(''temperature'', Scalar 80)]) =
     [CriticalHighTemperature 80 75]"
proof -
  let ?rd = "\<lparr>rd_sensors = Some [(''temperature'', Scalar 80)]\<rparr>"
  have s: "sensors_of ?rd = [(''temperature'', Scalar 80)]" by (simp add: sensors_of_def)
  have a1: "map_of (sensors_of ?rd) ''temperature'' = Some (Scalar 80)" by (simp add: s)
  have a2: "py_float (Scalar 80) = Inr 80" by simp
  have a3: "THERMAL_CRITICAL_THRESHOLD_C default_config = Some 75" by (simp add: default_config_def)
  have a4: "(80::real) \<ge> 75" by simp
  from critical_temperature_failsafe [OF a1 a2 a3 a4, of test_fridge]
  have ind: "filter is_critical (raw_sensor_alerts default_config no_thresholds (sensors_of ?rd)) =
               [CriticalHighTemperature 80 75]"
    by blast
  have run: "check_raw_sensor_thresholds default_config test_fridge ?rd =
     Inr [Discord (SensorThresholdAlert ''Test Fridge'' ''test_fridge'' ''Unknown'' ''fridge''
            [TemperatureOutOfRange 80 (2, 8), CriticalHighTemperature 80 75])]"
    by (simp add: check_raw_sensor_thresholds_def test_fridge_thresholds s fridge_80_alerts)
       (simp add: test_fridge_def display_name_of_def location_of_def channels_of_def)
  show ?thesis using a1 a2 a3 a4 ind run by (simp add: s)
qed

section \<open>Alerting of one cycle\<close>

lemma send_to_channels_messages:
  "d \<in> set (send_to_channels subject m cs) \<Longrightarrow> message_of d = m"
  by (induction cs) (auto split: if_splits)

lemma send_to_channels_composite:
  "map EquipmentAlert (send_to_channels subject m cs) = composite_sends subject m cs"
  by (induction cs) (auto simp add: composite_sends_def)

lemma check_raw_cases:
  assumes "get_equipment_thresholds (eq_type e) = Inr th"
  shows "check_raw_sensor_thresholds cfg e rd =
           Inr (if raw_sensor_alerts cfg th (sensors_of rd) = [] then []
                else send_to_channels (''Sensor Threshold Alert: '' @ display_name_of e)
                       (SensorThresholdAlert (display_name_of e) (eq_id e) (location_of e)
                          (eq_type e) (raw_sensor_alerts cfg th (sensors_of rd)))
                       (channels_of e))"
  by (simp add: check_raw_sensor_thresholds_def assms Let_def)

lemma check_anomaly_cases:
  assumes "get_equipment_thresholds (eq_type e) = Inr th"
  shows "check_anomaly_and_alert e results =
           (if anomalies_detected th results = [] then Inr []
            else case eq_name e of
                   None \<Rightarrow> Inl KeyError
                 | Some n \<Rightarrow>
                     Inr (send_to_channels (''Anomaly: '' @ n)
                            (AnomalyDetected n (eq_id e) (location_of e) (eq_type e)
                               (anomalies_detected th results))
                            (channels_of e)))"
  by (simp add: check_anomaly_and_alert_def assms Let_def)

lemma motion_phase_alerts:
  "\<exists>m. snd (snd (motion_phase cfg env e rd md lg alerts)) = alerts @ m \<and>
       length m \<le> 1 \<and> list_all is_motion_alert m"
  by (auto simp add: motion_phase_def Let_def split: prod.splits)

lemma monitor_security_alerts:
  "\<exists>m t. intrusion_alerts (fst (monitor_security scfg env st e rd)) = intrusion_alerts st @ m @ t \<and>
         length m \<le> 1 \<and> list_all is_motion_alert m \<and>
         length t \<le> 1 \<and> list_all (\<lambda>a. \<not> is_motion_alert a) t"
proof -
  obtain md td where g: "(case detectors st of
                        None \<Rightarrow> (new_motion_detector, new_tamper_detector)
                      | Some g \<Rightarrow> g) = (md, td)"
    by (cases "case detectors st of None \<Rightarrow> (new_motion_detector, new_tamper_detector) | Some g \<Rightarrow> g")
  obtain md1 lg1 al1 where mp:
    "motion_phase scfg env e rd md (activity_log st) (intrusion_alerts st) = (md1, lg1, al1)"
    by (cases "motion_phase scfg env e rd md (activity_log st) (intrusion_alerts st)")
  from motion_phase_alerts [of scfg env e rd md "activity_log st" "intrusion_alerts st"] mp
  obtain m where m: "al1 = intrusion_alerts st @ m" "length m \<le> 1" "list_all is_motion_alert m"
    by auto
  show ?thesis
  proof (cases "check_tamper scfg (t_rate env) (t_update env) td (eq_id e) rd")
    case (Inl err)
    then have "intrusion_alerts (fst (monitor_security scfg env st e rd)) = al1"
      by (simp add: monitor_security_def g mp)
    with m show ?thesis by (intro exI [of _ m] exI [of _ "[]"]) simp
  next
    case (Inr res)
    obtain tamper td1 where res: "res = (tamper, td1)" by (cases res)
    show ?thesis
    proof (cases tamper)
      case None
      then have "intrusion_alerts (fst (monitor_security scfg env st e rd)) = al1"
        using Inr res by (simp add: monitor_security_def g mp Let_def)
      with m show ?thesis by (intro exI [of _ m] exI [of _ "[]"]) simp
    next
      case (Some r)
      let ?t = "[EquipmentTampering (eq_id e) r (map_of (sensors_of rd) ''thermal'' \<noteq> None)]"
      have "intrusion_alerts (fst (monitor_security scfg env st e rd)) = al1 @ ?t"
        using Inr res Some by (simp add: monitor_security_def g mp Let_def)
      with m show ?thesis by (intro exI [of _ m] exI [of _ ?t]) simp
    qed
  qed
qed

lemma cycle_state:
  "fst (monitor_equipment_alerts scfg resp env st cfg e rd results) =
     fst (monitor_security scfg env st e rd)"
  by (simp add: monitor_equipment_alerts_def Let_def split: prod.splits sum.splits)

lemma cycle_calls:
  "fst (snd (monitor_equipment_alerts scfg resp env st cfg e rd results)) =
     concat (map (send_intrusion_alert resp)
               (drop (length (intrusion_alerts st))
                     (intrusion_alerts (fst (monitor_security scfg env st e rd))))) @
     map EquipmentAlert
       ((case check_raw_sensor_thresholds cfg e rd of Inl err \<Rightarrow> [] | Inr ds \<Rightarrow> ds) @
        (case check_anomaly_and_alert e results of Inl err \<Rightarrow> [] | Inr ds \<Rightarrow> ds))"
  by (simp add: monitor_equipment_alerts_def Let_def split: prod.splits sum.splits)

text \<open>
  Claim C3, as amended. The calls one \<open>monitor_equipment\<close> cycle makes to
  \<open>alert_manager\<close> are, in this order: the intrusion alerts of the security pass (at
  most one motion alert, then at most one tamper alert, each sent on its own over the
  switched-on intrusion channels); then the sensor-threshold composite, which lists
  all raw violations of the cycle and is sent exactly when there is at least one, once
  per discord or email entry of the equipment's channel list; then the anomaly
  composite, which lists all model anomalies of the cycle and is sent exactly when
  there is at least one and the instance has a name, again once per discord or email
  entry. Nothing else is sent.
\<close>

theorem one_composite_message_per_source:
  "\<exists>th m t.
     get_equipment_thresholds (eq_type e) = Inr th \<and>
     intrusion_alerts (fst (monitor_equipment_alerts scfg resp env st cfg e rd results)) =
       intrusion_alerts st @ m @ t \<and>
     length m \<le> 1 \<and> list_all is_motion_alert m \<and>
     length t \<le> 1 \<and> list_all (\<lambda>a. \<not> is_motion_alert a) t \<and>
     fst (snd (monitor_equipment_alerts scfg resp env st cfg e rd results)) =
       concat (map (send_intrusion_alert resp) (m @ t)) @
       (if raw_sensor_alerts cfg th (sensors_of rd) = [] then []
        else composite_sends (''Sensor Threshold Alert: '' @ display_name_of e)
               (SensorThresholdAlert (display_name_of e) (eq_id e) (location_of e) (eq_type e)
                  (raw_sensor_alerts cfg th (sensors_of rd)))
               (channels_of e)) @
       (if anomalies_detected th results = [] \<or> eq_name e = None then []
        else composite_sends (''Anomaly: '' @ display_name_of e)
               (AnomalyDetected (display_name_of e) (eq_id e) (location_of e) (eq_type e)
                  (anomalies_detected th results))
               (channels_of e))"
proof -
  obtain th where th: "get_equipment_thresholds (eq_type e) = Inr th"
    using get_equipment_thresholds_total by blast
  obtain m t where sec:
      "intrusion_alerts (fst (monitor_security scfg env st e rd)) = intrusion_alerts st @ m @ t"
      "length m \<le> 1" "list_all is_motion_alert m"
      "length t \<le> 1" "list_all (\<lambda>a. \<not> is_motion_alert a) t"
    using monitor_security_alerts [of scfg env st e rd] by blast
  have new: "drop (length (intrusion_alerts st))
               (intrusion_alerts (fst (monitor_security scfg env st e rd))) = m @ t"
    by (simp add: sec(1))
  have raw: "map EquipmentAlert
               (case check_raw_sensor_thresholds cfg e rd of Inl err \<Rightarrow> [] | Inr ds \<Rightarrow> ds) =
             (if raw_sensor_alerts cfg th (sensors_of rd) = [] then []
              else composite_sends (''Sensor Threshold Alert: '' @ display_name_of e)
                     (SensorThresholdAlert (display_name_of e) (eq_id e) (location_of e) (eq_type e)
                        (raw_sensor_alerts cfg th (sensors_of rd)))
                     (channels_of e))"
    by (simp add: check_raw_cases [OF th] send_to_channels_composite)
  have model: "map EquipmentAlert
               (case check_anomaly_and_alert e results of Inl err \<Rightarrow> [] | Inr ds \<Rightarrow> ds) =
             (if anomalies_detected th results = [] \<or> eq_name e = None then []
              else composite_sends (''Anomaly: '' @ display_name_of e)
                     (AnomalyDetected (display_name_of e) (eq_id e) (location_of e) (eq_type e)
                        (anomalies_detected th results))
                     (channels_of e))"
    by (cases "eq_name e")
       (simp_all add: check_anomaly_cases [OF th] send_to_channels_composite display_name_of_def)
  have calls: "fst (snd (monitor_equipment_alerts scfg resp env st cfg e rd results)) =
       concat (map (send_intrusion_alert resp) (m @ t)) @
       (if raw_sensor_alerts cfg th (sensors_of rd) = [] then []
        else composite_sends (''Sensor Threshold Alert: '' @ display_name_of e)
               (SensorThresholdAlert (display_name_of e) (eq_id e) (location_of e) (eq_type e)
                  (raw_sensor_alerts cfg th (sensors_of rd)))
               (channels_of e)) @
       (if anomalies_detected th results = [] \<or> eq_name e = None then []
        else composite_sends (''Anomaly: '' @ display_name_of e)
               (AnomalyDetected (display_name_of e) (eq_id e) (location_of e) (eq_type e)
                  (anomalies_detected th results))
               (channels_of e))"
    unfolding cycle_calls new map_append raw model by (rule refl)
  show ?thesis
    using th sec calls unfolding cycle_state by blast
qed

lemma fridge_thermal_09:
  "anomalies_detected fridge_thresholds [Thermal_cnn 0.9] = [ThermalAnomaly 0.9 0.85]"
  by (simp add: fridge_thresholds_def no_thresholds_def)

lemma fridge_80_knocked_alerts:
  "raw_sensor_alerts default_config fridge_thresholds
      [(''temperature'', Scalar 80), (''vibration'', Scalar 3)] =
     [TemperatureOutOfRange 80 (2, 8), CriticalHighTemperature 80 75]"
  by (simp add: raw_sensor_alerts_def temperature_alerts_def gas_alerts_def co2_alerts_def
        oxygen_alerts_def vibration_alerts_def current_alerts_def default_config_def
        fridge_thresholds_def no_thresholds_def)

lemma test_fridge_names:
  "display_name_of test_fridge = ''Test Fridge''" "eq_id test_fridge = ''test_fridge''"
  "location_of test_fridge = ''Unknown''" "eq_type test_fridge = ''fridge''"
  "channels_of test_fridge = [''discord'']" "eq_name test_fridge = Some ''Test Fridge''"
  by (simp_all add: test_fridge_def display_name_of_def location_of_def channels_of_def)

lemma quiet_security_pass:
  "intrusion_alerts (fst (monitor_security SECURITY_CONFIG (env_at 0 False)
       initial_security_state test_fridge fridge_at_80)) = []"
  by (simp add: monitor_security_def motion_phase_def detect_motion_def is_cooldown_active_def
        check_tamper_def check_temperature_rate_def update_baseline_def sensors_of_def
        log_activity_def new_motion_detector_def new_tamper_detector_def location_of_def
        env_at_def SECURITY_CONFIG_def test_fridge_def initial_security_state_def
        fridge_at_80_def Let_def)

lemma knocked_security_pass:
  "intrusion_alerts (fst (monitor_security SECURITY_CONFIG (env_at 0 False)
       initial_security_state test_fridge fridge_at_80_knocked)) =
     [EquipmentTampering ''test_fridge'' (PhysicalTampering 3) False]"
  by (simp add: monitor_security_def motion_phase_def detect_motion_def is_cooldown_active_def
        check_tamper_def sensors_of_def
        log_activity_def new_motion_detector_def new_tamper_detector_def location_of_def
        env_at_def SECURITY_CONFIG_def test_fridge_def initial_security_state_def
        fridge_at_80_knocked_def Let_def)

text \<open>
  Claim C3 as stated fails: a fridge at 80 C whose thermal model reports 0.9 gets two
  messages on its one discord channel in the same cycle, one per event source.
\<close>

theorem one_message_per_cycle_counterexample:
  "fst (snd (monitor_equipment_alerts SECURITY_CONFIG INTRUSION_RESPONSE (env_at 0 False)
               initial_security_state default_config test_fridge fridge_at_80
               [Thermal_cnn 0.9])) =
     [EquipmentAlert (Discord (SensorThresholdAlert ''Test Fridge'' ''test_fridge'' ''Unknown''
                        ''fridge'' [TemperatureOutOfRange 80 (2, 8), CriticalHighTemperature 80 75])),
      EquipmentAlert (Discord (AnomalyDetected ''Test Fridge'' ''test_fridge'' ''Unknown''
                        ''fridge'' [ThermalAnomaly 0.9 0.85]))]"
proof -
  have s: "sensors_of fridge_at_80 = [(''temperature'', Scalar 80)]"
    by (simp add: sensors_of_def fridge_at_80_def)
  have raw: "check_raw_sensor_thresholds default_config test_fridge fridge_at_80 =
     Inr [Discord (SensorThresholdAlert ''Test Fridge'' ''test_fridge'' ''Unknown'' ''fridge''
            [TemperatureOutOfRange 80 (2, 8), CriticalHighTemperature 80 75])]"
    unfolding check_raw_cases [OF test_fridge_thresholds] s fridge_80_alerts test_fridge_names
    by simp
  have model: "check_anomaly_and_alert test_fridge [Thermal_cnn 0.9] =
     Inr [Discord (AnomalyDetected ''Test Fridge'' ''test_fridge'' ''Unknown'' ''fridge''
            [ThermalAnomaly 0.9 0.85])]"
    unfolding check_anomaly_cases [OF test_fridge_thresholds] fridge_thermal_09 test_fridge_names
    by simp
  have init: "intrusion_alerts initial_security_state = []"
    by (simp add: initial_security_state_def)
  show ?thesis
    unfolding cycle_calls quiet_security_pass init raw model by simp
qed

theorem one_composite_message_per_source_witness:
  "fst (snd (monitor_equipment_alerts SECURITY_CONFIG INTRUSION_RESPONSE (env_at 0 False)
               initial_security_state default_config test_fridge fridge_at_80_knocked
               [Thermal_cnn 0.9])) =
     [IntrusionDiscord (EquipmentTampering ''test_fridge'' (PhysicalTampering 3) False),
      IntrusionEmail (EquipmentTampering ''test_fridge'' (PhysicalTampering 3) False),
      IntrusionSms (EquipmentTampering ''test_fridge'' (PhysicalTampering 3) False),
      EquipmentAlert (Discord (SensorThresholdAlert ''Test Fridge'' ''test_fridge'' ''Unknown''
                        ''fridge'' [TemperatureOutOfRange 80 (2, 8), CriticalHighTemperature 80 75])),
      EquipmentAlert (Discord (AnomalyDetected ''Test Fridge'' ''test_fridge'' ''Unknown''
                        ''fridge'' [ThermalAnomaly 0.9 0.85]))] \<and>
   fst (snd (monitor_equipment_alerts SECURITY_CONFIG INTRUSION_RESPONSE (env_at 0 False)
               initial_security_state default_config test_fridge no_readings [])) = []"
proof -
  let ?tamper = "EquipmentTampering ''test_fridge'' (PhysicalTampering 3) False"
  have init: "intrusion_alerts initial_security_state = []"
    by (simp add: initial_security_state_def)
  have s: "sensors_of fridge_at_80_knocked = [(''temperature'', Scalar 80), (''vibration'', Scalar 3)]"
    by (simp add: sensors_of_def fridge_at_80_knocked_def)
  from one_composite_message_per_source [of test_fridge SECURITY_CONFIG INTRUSION_RESPONSE
         "env_at 0 False" initial_security_state default_config fridge_at_80_knocked
         "[Thermal_cnn 0.9]"]
  obtain th m t where
        th: "get_equipment_thresholds (eq_type test_fridge) = Inr th"
    and st: "intrusion_alerts (fst (monitor_equipment_alerts SECURITY_CONFIG INTRUSION_RESPONSE
               (env_at 0 False) initial_security_state default_config test_fridge
               fridge_at_80_knocked [Thermal_cnn 0.9])) =
             intrusion_alerts initial_security_state @ m @ t"
    and calls: "fst (snd (monitor_equipment_alerts SECURITY_CONFIG INTRUSION_RESPONSE
               (env_at 0 False) initial_security_state default_config test_fridge
               fridge_at_80_knocked [Thermal_cnn 0.9])) =
       concat (map (send_intrusion_alert INTRUSION_RESPONSE) (m @ t)) @
       (if raw_sensor_alerts default_config th (sensors_of fridge_at_80_knocked) = [] then []
        else composite_sends (''Sensor Threshold Alert: '' @ display_name_of test_fridge)
               (SensorThresholdAlert (display_name_of test_fridge) (eq_id test_fridge)
                  (location_of test_fridge) (eq_type test_fridge)
                  (raw_sensor_alerts default_config th (sensors_of fridge_at_80_knocked)))
               (channels_of test_fridge)) @
       (if anomalies_detected th [Thermal_cnn 0.9] = [] \<or> eq_name test_fridge = None then []
        else composite_sends (''Anomaly: '' @ display_name_of test_fridge)
               (AnomalyDetected (display_name_of test_fridge) (eq_id test_fridge)
                  (location_of test_fridge) (eq_type test_fridge)
                  (anomalies_detected th [Thermal_cnn 0.9]))
               (channels_of test_fridge))"
    by blast
  from th test_fridge_thresholds have th_eq: "th = fridge_thresholds" by simp
  from st have mt: "m @ t = [?tamper]"
    unfolding cycle_state knocked_security_pass init by simp
  have first: "fst (snd (monitor_equipment_alerts SECURITY_CONFIG INTRUSION_RESPONSE
               (env_at 0 False) initial_security_state default_config test_fridge
               fridge_at_80_knocked [Thermal_cnn 0.9])) =
     [IntrusionDiscord ?tamper, IntrusionEmail ?tamper, IntrusionSms ?tamper,
      EquipmentAlert (Discord (SensorThresholdAlert ''Test Fridge'' ''test_fridge'' ''Unknown''
                        ''fridge'' [TemperatureOutOfRange 80 (2, 8), CriticalHighTemperature 80 75])),
      EquipmentAlert (Discord (AnomalyDetected ''Test Fridge'' ''test_fridge'' ''Unknown''
                        ''fridge'' [ThermalAnomaly 0.9 0.85]))]"
    unfolding calls mt th_eq s fridge_80_knocked_alerts fridge_thermal_09 test_fridge_names
    by (simp add: send_intrusion_alert_def INTRUSION_RESPONSE_def composite_sends_def)
  have quiet: "intrusion_alerts (fst (monitor_security SECURITY_CONFIG (env_at 0 False)
       initial_security_state test_fridge no_readings)) = []"
    by (simp add: monitor_security_def motion_phase_def detect_motion_def is_cooldown_active_def
        check_tamper_def check_temperature_rate_def update_baseline_def sensors_of_def
        log_activity_def new_motion_detector_def new_tamper_detector_def location_of_def
        env_at_def SECURITY_CONFIG_def test_fridge_def initial_security_state_def
        no_readings_def Let_def)
  have none_raw: "raw_sensor_alerts default_config fridge_thresholds (sensors_of no_readings) = []"
    by (simp add: raw_sensor_alerts_def temperature_alerts_def gas_alerts_def co2_alerts_def
        oxygen_alerts_def vibration_alerts_def current_alerts_def sensors_of_def no_readings_def)
  from one_composite_message_per_source [of test_fridge SECURITY_CONFIG INTRUSION_RESPONSE
         "env_at 0 False" initial_security_state default_config no_readings "[]"]
  obtain th2 m2 t2 where
        th2: "get_equipment_thresholds (eq_type test_fridge) = Inr th2"
    and st2: "intrusion_alerts (fst (monitor_equipment_alerts SECURITY_CONFIG INTRUSION_RESPONSE
               (env_at 0 False) initial_security_state default_config test_fridge
               no_readings [])) =
             intrusion_alerts initial_security_state @ m2 @ t2"
    and calls2: "fst (snd (monitor_equipment_alerts SECURITY_CONFIG INTRUSION_RESPONSE
               (env_at 0 False) initial_security_state default_config test_fridge
               no_readings [])) =
       concat (map (send_intrusion_alert INTRUSION_RESPONSE) (m2 @ t2)) @
       (if raw_sensor_alerts default_config th2 (sensors_of no_readings) = [] then []
        else composite_sends (''Sensor Threshold Alert: '' @ display_name_of test_fridge)
               (SensorThresholdAlert (display_name_of test_fridge) (eq_id test_fridge)
                  (location_of test_fridge) (eq_type test_fridge)
                  (raw_sensor_alerts default_config th2 (sensors_of no_readings)))
               (channels_of test_fridge)) @
       (if anomalies_detected th2 [] = [] \<or> eq_name test_fridge = None then []
        else composite_sends (''Anomaly: '' @ display_name_of test_fridge)
               (AnomalyDetected (display_name_of test_fridge) (eq_id test_fridge)
                  (location_of test_fridge) (eq_type test_fridge)
                  (anomalies_detected th2 []))
               (channels_of test_fridge))"
    by blast
  from th2 test_fridge_thresholds have th2_eq: "th2 = fridge_thresholds" by simp
  from st2 have mt2: "m2 @ t2 = []"
    unfolding cycle_state quiet init by simp
  have second: "fst (snd (monitor_equipment_alerts SECURITY_CONFIG INTRUSION_RESPONSE
               (env_at 0 False) initial_security_state default_config test_fridge
               no_readings [])) = []"
    unfolding calls2 mt2 th2_eq none_raw by simp
  show ?thesis using first second by blast
qed

section \<open>Fusion\<close>

lemma thermal_anomaly_iff:
  "ThermalAnomaly c t \<in> set (anomalies_detected th results) \<longleftrightarrow>
     Thermal_cnn c \<in> set results \<and>
     t = (case thermal_anomaly_confidence th of None \<Rightarrow> 0.85 | Some x \<Rightarrow> x) \<and> c > t"
proof (induction results)
  case Nil
  show ?case by simp
next
  case (Cons r rs)
  show ?case by (cases r) (auto simp add: Cons Let_def)
qed

lemma acoustic_anomaly_iff:
  "AcousticAnomaly c t \<in> set (anomalies_detected th results) \<longleftrightarrow>
     Acoustic_cnn c \<in> set results \<and>
     t = (case acoustic_anomaly_confidence th of None \<Rightarrow> 0.85 | Some x \<Rightarrow> x) \<and> c > t"
proof (induction results)
  case Nil
  show ?case by simp
next
  case (Cons r rs)
  show ?case by (cases r) (auto simp add: Cons Let_def)
qed

text \<open>
  Claim C2, as amended. In \<open>check_anomaly_and_alert\<close> a thermal (acoustic) anomaly is
  recorded exactly for the thermal (acoustic) results whose confidence exceeds the
  type's threshold, whatever the other results are, so when both exceed both are
  recorded; this function has no correlated check. In the hardened \<open>main\<close> loop the
  checks are one \<open>if/elif\<close> chain: a thermal score above its threshold gives the
  CRITICAL thermal alert alone; the CRITICAL acoustic alert is sent only when the
  thermal score does not exceed its threshold; the correlated check is reached only
  when neither does.
\<close>

theorem fusion_high_confidence_rule:
  "(ThermalAnomaly c t \<in> set (anomalies_detected th results) \<longleftrightarrow>
      Thermal_cnn c \<in> set results \<and>
      t = (case thermal_anomaly_confidence th of None \<Rightarrow> 0.85 | Some x \<Rightarrow> x) \<and> c > t) \<and>
   (AcousticAnomaly c t \<in> set (anomalies_detected th results) \<longleftrightarrow>
      Acoustic_cnn c \<in> set results \<and>
      t = (case acoustic_anomaly_confidence th of None \<Rightarrow> 0.85 | Some x \<Rightarrow> x) \<and> c > t) \<and>
   (thermal_score > THERMAL_ANOMALY_CONFIDENCE cfg \<longrightarrow>
      model_fusion_alerts cfg thermal_score acoustic_score =
        [CriticalThermalAnomaly thermal_score]) \<and>
   (\<not> thermal_score > THERMAL_ANOMALY_CONFIDENCE cfg \<and>
    acoustic_score > ACOUSTIC_ANOMALY_CONFIDENCE cfg \<longrightarrow>
      model_fusion_alerts cfg thermal_score acoustic_score =
        [CriticalAcousticAnomaly acoustic_score]) \<and>
   (\<not> thermal_score > THERMAL_ANOMALY_CONFIDENCE cfg \<and>
    \<not> acoustic_score > ACOUSTIC_ANOMALY_CONFIDENCE cfg \<longrightarrow>
      model_fusion_alerts cfg thermal_score acoustic_score =
        (if thermal_score > FUSION_CORRELATION_CONFIDENCE cfg \<and>
            acoustic_score > FUSION_CORRELATION_CONFIDENCE cfg
         then [CorrelatedAnomaly thermal_score acoustic_score] else []))"
  using thermal_anomaly_iff [of c t th results] acoustic_anomaly_iff [of c t th results]
  by (simp add: model_fusion_alerts_def)

text \<open>
  Claim C2 as stated fails in the hardened loop: with both scores at 0.9, above both
  anomaly thresholds, the only alert is the thermal one.
\<close>

theorem both_critical_counterexample:
  "(0.9::real) > THERMAL_ANOMALY_CONFIDENCE default_main_config \<and>
   (0.9::real) > ACOUSTIC_ANOMALY_CONFIDENCE default_main_config \<and>
   sensor_fusion_alerts default_main_config 0.9 0.9 0 = [CriticalThermalAnomaly 0.9]"
  by (simp add: sensor_fusion_alerts_def model_fusion_alerts_def default_main_config_def)

theorem fusion_high_confidence_rule_witness:
  "(0.9::real) > THERMAL_ANOMALY_CONFIDENCE default_main_config \<and>
   model_fusion_alerts default_main_config 0.9 0.9 = [CriticalThermalAnomaly 0.9] \<and>
   \<not> (0.5::real) > THERMAL_ANOMALY_CONFIDENCE default_main_config \<and>
   (0.9::real) > ACOUSTIC_ANOMALY_CONFIDENCE default_main_config \<and>
   model_fusion_alerts default_main_config 0.5 0.9 = [CriticalAcousticAnomaly 0.9] \<and>
   ThermalAnomaly 0.9 0.85 \<in> set (anomalies_detected fridge_thresholds [Thermal_cnn 0.9, Acoustic_cnn 0.9]) \<and>
   AcousticAnomaly 0.9 0.85 \<in> set (anomalies_detected fridge_thresholds [Thermal_cnn 0.9, Acoustic_cnn 0.9])"
proof -
  have c1: "(0.9::real) > THERMAL_ANOMALY_CONFIDENCE default_main_config"
    and c2: "\<not> (0.5::real) > THERMAL_ANOMALY_CONFIDENCE default_main_config"
    and c3: "(0.9::real) > ACOUSTIC_ANOMALY_CONFIDENCE default_main_config"
    by (simp_all add: default_main_config_def)
  have t: "thermal_anomaly_confidence fridge_thresholds = Some 0.85"
    and a: "acoustic_anomaly_confidence fridge_thresholds = Some 0.85"
    by (simp_all add: fridge_thresholds_def no_thresholds_def)
  have m: "Thermal_cnn 0.9 \<in> set [Thermal_cnn 0.9, Acoustic_cnn 0.9]"
          "Acoustic_cnn 0.9 \<in> set [Thermal_cnn 0.9, Acoustic_cnn 0.9]"
    by simp_all
  have lt: "(0.9::real) > 0.85" by simp
  note r1 = fusion_high_confidence_rule [where c = "0.9" and t = "0.85" and th = fridge_thresholds
              and results = "[Thermal_cnn 0.9, Acoustic_cnn 0.9]" and thermal_score = "0.9"
              and cfg = default_main_config and acoustic_score = "0.9"]
  note r2 = fusion_high_confidence_rule [where c = "0.9" and t = "0.85" and th = fridge_thresholds
              and results = "[Thermal_cnn 0.9, Acoustic_cnn 0.9]" and thermal_score = "0.5"
              and cfg = default_main_config and acoustic_score = "0.9"]
  have w1: "model_fusion_alerts default_main_config 0.9 0.9 = [CriticalThermalAnomaly 0.9]"
    using r1 c1 by blast
  have w2: "model_fusion_alerts default_main_config 0.5 0.9 = [CriticalAcousticAnomaly 0.9]"
    using r2 c2 c3 by blast
  have w3: "ThermalAnomaly 0.9 0.85 \<in> set (anomalies_detected fridge_thresholds [Thermal_cnn 0.9, Acoustic_cnn 0.9])"
    using r1 m lt unfolding t option.case by blast
  have w4: "AcousticAnomaly 0.9 0.85 \<in> set (anomalies_detected fridge_thresholds [Thermal_cnn 0.9, Acoustic_cnn 0.9])"
    using r1 m lt unfolding a option.case by blast
  show ?thesis using c1 c2 c3 w1 w2 w3 w4 by blast
qed

section \<open>Inference\<close>

lemma np_clip_unit:
  "np_clip x 0 1 = NaN \<and> x = NaN \<or> (\<exists>s. np_clip x 0 1 = Fl s \<and> 0 \<le> s \<and> s \<le> 1)"
  by (cases x) simp_all

lemma run_inference_range_unless_nan:
  "run_inference casts interp x = NaN \<or>
   (\<exists>s. run_inference casts interp x = Fl s \<and> 0 \<le> s \<and> s \<le> 1)"
proof (cases interp)
  case None
  then show ?thesis by (simp add: run_inference_def)
next
  case (Some i)
  show ?thesis
  proof (cases "run_inference_try casts i x")
    case (Inl err)
    then show ?thesis by (simp add: run_inference_def Some)
  next
    case (Inr score)
    then have "score = Fl 0 \<or> (\<exists>y. score = np_clip y 0 1)"
      by (auto simp add: run_inference_try_def Let_def split: sum.splits if_splits)
    then have "score = NaN \<or> (\<exists>s. score = Fl s \<and> 0 \<le> s \<and> s \<le> 1)"
      using np_clip_unit by force
    then show ?thesis by (simp add: run_inference_def Some Inr)
  qed
qed

lemma run_inference_zero_on_failure:
  "run_inference casts None x = Fl 0"
  "run_inference_try casts i x = Inl err \<Longrightarrow> run_inference casts (Some i) x = Fl 0"
  by (simp_all add: run_inference_def)

text \<open>
  Claim C9, evaluated on the code. A float32 model whose output is NaN makes
  \<open>run_inference\<close> return NaN: \<open>np.clip\<close> passes NaN through and nothing raises, so
  the returned score is not in [0, 1]. For comparison, an output of 1.7 is clipped
  to 1, and an interpreter whose run raises, a frame whose shape does not fit the
  model and a missing interpreter all give 0.
\<close>

theorem run_inference_returns_nan:
  "run_inference exact_casts (Some nan_interpreter) small_image = NaN \<and>
   run_inference exact_casts (Some overshooting_interpreter) small_image = Fl 1 \<and>
   run_inference exact_casts (Some broken_interpreter) small_image = Fl 0 \<and>
   run_inference exact_casts (Some overshooting_interpreter) wide_image = Fl 0 \<and>
   run_inference exact_casts None small_image = Fl 0"
  by (simp add: run_inference_def run_inference_try_def nan_interpreter_def
        overshooting_interpreter_def broken_interpreter_def small_image_def wide_image_def
        first_item_def normalize_shape_def dequantize_output_def)

section \<open>Security monitoring\<close>

lemmas security_defs =
  monitor_security_def motion_phase_def detect_motion_def is_cooldown_active_def
  check_tamper_def check_temperature_rate_def update_baseline_def sensors_of_def
  log_activity_def new_motion_detector_def new_tamper_detector_def location_of_def
  env_at_def SECURITY_CONFIG_def fridge_lab_a_01_def initial_security_state_def
  no_readings_def motion_alert_count_def motion_log_count_def Let_def

lemma rising_edge_never_alerts:
  assumes "\<not> motion_active md" and "t_cooldown env - t_detect env < cooldown_seconds cfg"
  shows "snd (motion_phase cfg env e rd md lg alerts) = (lg, alerts)"
  using assms
  by (auto simp add: motion_phase_def detect_motion_def is_cooldown_active_def Let_def)

text \<open>
  Claim C1, evaluated on the code. With the default configuration and a fresh
  detector, two calls of \<open>monitor_security\<close> with the motion pin high, at 0 s and at
  30 s, send no motion alert and write no motion entry to the activity log:
  \<open>detect_motion\<close> stamps \<open>last_motion_time\<close> on the rising edge, so the cooldown test
  that follows is already true. A third high read at 400 s sends the first alert, not
  the second; and when the pin drops between the reads, every read is a rising edge
  and no alert is ever sent.
\<close>

theorem motion_cooldown_first_alert_suppressed:
  "motion_alert_count (security_run SECURITY_CONFIG fridge_lab_a_01 initial_security_state
      [(env_at 0 True, no_readings), (env_at 30 True, no_readings)]) = 0 \<and>
   motion_log_count (security_run SECURITY_CONFIG fridge_lab_a_01 initial_security_state
      [(env_at 0 True, no_readings), (env_at 30 True, no_readings)]) = 0 \<and>
   motion_alert_count (security_run SECURITY_CONFIG fridge_lab_a_01 initial_security_state
      [(env_at 0 True, no_readings), (env_at 30 True, no_readings),
       (env_at 400 True, no_readings)]) = 1 \<and>
   motion_alert_count (security_run SECURITY_CONFIG fridge_lab_a_01 initial_security_state
      [(env_at 0 True, no_readings), (env_at 15 False, no_readings),
       (env_at 30 True, no_readings), (env_at 200 False, no_readings),
       (env_at 400 True, no_readings)]) = 0"
  by (simp add: security_defs)

text \<open>
  Claim C5 as stated fails: a reading of 20 C one minute after a baseline of 5 C is
  signalled as thermal tampering and the stored baseline stays at 5 C and time 0.
\<close>

theorem tamper_keeps_baseline_counterexample:
  "check_tamper SECURITY_CONFIG 60 60 fridge_baseline ''fridge_lab_a_01''
      \<lparr>rd_sensors = Some [(''temperature'', Scalar 20)]\<rparr> =
     Inr (Some (ThermalTampering 15), fridge_baseline) \<and>
   baseline_readings fridge_baseline ''fridge_lab_a_01'' =
     Some \<lparr>b_temperature = Some (Scalar 5), b_timestamp = 0\<rparr>"
  by (simp add: check_tamper_def check_temperature_rate_def SECURITY_CONFIG_def
        fridge_baseline_def sensors_of_def Let_def)

lemma update_baseline_result:
  "update_baseline now td i s = Inr (r, td') \<Longrightarrow>
     r = None \<and>
     baseline_readings td' i = Some \<lparr>b_temperature = map_of s ''temperature'', b_timestamp = now\<rparr> \<and>
     (\<forall>other. other \<noteq> i \<longrightarrow> baseline_readings td' other = baseline_readings td other)"
  by (auto simp add: update_baseline_def)

lemma check_temperature_rate_result:
  assumes "check_temperature_rate cfg t1 t2 td i s = Inr (r, td')"
  shows "(r = None \<longrightarrow>
            baseline_readings td' i = Some \<lparr>b_temperature = map_of s ''temperature'', b_timestamp = t2\<rparr> \<and>
            (\<forall>other. other \<noteq> i \<longrightarrow> baseline_readings td' other = baseline_readings td other)) \<and>
         (r \<noteq> None \<longrightarrow> td' = td)"
  using assms update_baseline_result [of t2 td i s r td']
  by (auto simp add: check_temperature_rate_def Let_def
           split: option.splits sum.splits if_splits)

text \<open>
  Claim C5, as amended. With tamper detection enabled, a call of \<open>check_tamper\<close> that
  signals no tamper stores, for that equipment id, the cycle's temperature reading
  (\<open>None\<close> when there is none) and the time of the update, and leaves the baselines of
  the other ids as they were; a call that signals a tamper returns before the update
  and leaves every baseline unchanged.
\<close>

theorem baseline_updated_when_no_tamper:
  assumes "tamper_detection_enabled cfg"
      and "check_tamper cfg now_rate now_update td equipment_id rd = Inr (result, td')"
  shows "(result = None \<longrightarrow>
            baseline_readings td' equipment_id =
              Some \<lparr>b_temperature = map_of (sensors_of rd) ''temperature'',
                     b_timestamp = now_update\<rparr> \<and>
            (\<forall>other. other \<noteq> equipment_id \<longrightarrow>
                baseline_readings td' other = baseline_readings td other)) \<and>
         (result \<noteq> None \<longrightarrow> td' = td)"
  using assms
        check_temperature_rate_result [of cfg now_rate now_update td equipment_id "sensors_of rd" result td']
  by (auto simp add: check_tamper_def Let_def split: option.splits sum.splits if_splits)

theorem baseline_updated_when_no_tamper_witness:
  "tamper_detection_enabled SECURITY_CONFIG \<and>
   (\<exists>td'. check_tamper SECURITY_CONFIG 600 601 fridge_baseline ''fridge_lab_a_01''
              \<lparr>rd_sensors = Some [(''temperature'', Scalar 20)]\<rparr> = Inr (None, td') \<and>
           baseline_readings td' ''fridge_lab_a_01'' =
             Some \<lparr>b_temperature = Some (Scalar 20), b_timestamp = 601\<rparr>) \<and>
   check_tamper SECURITY_CONFIG 60 60 fridge_baseline ''fridge_lab_a_01''
       \<lparr>rd_sensors = Some [(''temperature'', Scalar 5), (''vibration'', Scalar 3)]\<rparr> =
     Inr (Some (PhysicalTampering 3), fridge_baseline)"
proof -
  let ?rd = "\<lparr>rd_sensors = Some [(''temperature'', Scalar 20)]\<rparr>"
  have en: "tamper_detection_enabled SECURITY_CONFIG" by (simp add: SECURITY_CONFIG_def)
  have "\<exists>td'. check_tamper SECURITY_CONFIG 600 601 fridge_baseline ''fridge_lab_a_01'' ?rd
                 = Inr (None, td')"
    by (simp add: check_tamper_def check_temperature_rate_def update_baseline_def
          SECURITY_CONFIG_def fridge_baseline_def sensors_of_def Let_def)
  then obtain td' where run: "check_tamper SECURITY_CONFIG 600 601 fridge_baseline
                                ''fridge_lab_a_01'' ?rd = Inr (None, td')"
    by blast
  have s: "map_of (sensors_of ?rd) ''temperature'' = Some (Scalar 20)"
    by (simp add: sensors_of_def)
  from baseline_updated_when_no_tamper [OF en run]
  have "baseline_readings td' ''fridge_lab_a_01'' =
          Some \<lparr>b_temperature = Some (Scalar 20), b_timestamp = 601\<rparr>"
    unfolding s by blast
  with en run have first: "\<exists>td'. check_tamper SECURITY_CONFIG 600 601 fridge_baseline
        ''fridge_lab_a_01'' ?rd = Inr (None, td') \<and>
      baseline_readings td' ''fridge_lab_a_01'' =
        Some \<lparr>b_temperature = Some (Scalar 20), b_timestamp = 601\<rparr>"
    by blast
  let ?rd2 = "\<lparr>rd_sensors = Some [(''temperature'', Scalar 5), (''vibration'', Scalar 3)]\<rparr>"
  have "\<exists>td2. check_tamper SECURITY_CONFIG 60 60 fridge_baseline ''fridge_lab_a_01'' ?rd2
                 = Inr (Some (PhysicalTampering 3), td2)"
    by (simp add: check_tamper_def SECURITY_CONFIG_def sensors_of_def Let_def)
  then obtain td2 where run2: "check_tamper SECURITY_CONFIG 60 60 fridge_baseline
      ''fridge_lab_a_01'' ?rd2 = Inr (Some (PhysicalTampering 3), td2)"
    by blast
  from baseline_updated_when_no_tamper [OF en run2] have "td2 = fridge_baseline" by blast
  with run2 have second: "check_tamper SECURITY_CONFIG 60 60 fridge_baseline
      ''fridge_lab_a_01'' ?rd2 = Inr (Some (PhysicalTampering 3), fridge_baseline)"
    by simp
  show ?thesis using en first second by blast
qed

end
